theory Spec2Isabelle
  imports Complex_Main
begin

section \<open>Conventions of the embedding\<close>

text \<open>
  The JavaScript sources compute on \<open>number\<close>s. They are embedded as HOL reals, so
  rounding is not part of the model. Where a source computes a value that is not a finite
  number, the model says so with a constructor of its own: the \<open>-Infinity\<close> that
  \<open>calculateSignalStrength\<close> returns, the NaN coordinates of a propagated position, and
  the infinities of an overflow in the second model of \<open>calculateSignalStrength\<close>, which
  keeps the range of doubles. A field of a parameter object that the source tests for
  presence is an \<open>option\<close>: where the test is for a falsy value or \<open>== null\<close>, \<open>None\<close>
  is \<open>undefined\<close>, a missing object or \<open>null\<close>; where the test is \<open>=== undefined\<close> (the
  scalar fields of \<open>llaToEcef\<close> and \<open>ecefToLla\<close>), \<open>None\<close> is \<open>undefined\<close> only, and a
  field that is \<open>null\<close>, which passes that test, has no value in the model. Every
  \<open>throw new Error(msg)\<close> is a value \<open>Inl\<close> of the type \<open>error\<close>, one constructor for
  each message the sources throw.
\<close>

datatype error =
    MissingParameter                  \<comment> \<open>the message "required parameter missing"\<close>
  | SatelliteNotFound string          \<comment> \<open>"no orbit data found for satellite <id>"\<close>
  | MissingOrbitalParameters string   \<comment> \<open>"satellite <id> lacks orbital parameters"\<close>
  | OutOfValidityRange                \<comment> \<open>"calculation time outside the ephemeris validity range"\<close>

section \<open>coordinateConverter.js\<close>

text \<open>
  The objects the converter takes and returns. Its functions test the scalar fields of
  their argument against \<open>undefined\<close>, so these fields are options (\<open>None\<close> is a field
  left out or \<open>undefined\<close>). The fields \<open>x\<close>,
  \<open>y\<close>, \<open>z\<close> of the source are \<open>xyz_x\<close>, \<open>xyz_y\<close>, \<open>xyz_z\<close> here.
\<close>

record lla =
  longitude :: "real option"
  latitude :: "real option"
  altitude :: "real option"

record xyz =
  xyz_x :: "real option"
  xyz_y :: "real option"
  xyz_z :: "real option"

record attitude =
  roll :: real
  pitch :: real
  yaw :: real

record body_params =
  aircraftPositionLla :: "lla option"
  aircraftAttitude :: "attitude option"
  bodyCoord :: "xyz option"
  ecefCoord :: "xyz option"

text \<open>
  \<open>llaToEcef\<close>: after the presence check the body is the source's placeholder, which
  returns one fixed point whatever the argument (the WGS84 formula is a TODO comment).
\<close>

definition llaToEcef :: "lla option \<Rightarrow> error + xyz" where
  "llaToEcef params =
     (case params of
        None \<Rightarrow> Inl MissingParameter
      | Some p \<Rightarrow>
          if longitude p = None \<or> latitude p = None \<or> altitude p = None
          then Inl MissingParameter
          else Inr \<lparr>xyz_x = Some (-2178193.23), xyz_y = Some 4385320.32,
                    xyz_z = Some 4077003.58\<rparr>)"

definition ecefToLla :: "xyz option \<Rightarrow> error + lla" where
  "ecefToLla params =
     (case params of
        None \<Rightarrow> Inl MissingParameter
      | Some p \<Rightarrow>
          if xyz_x p = None \<or> xyz_y p = None \<or> xyz_z p = None
          then Inl MissingParameter
          else Inr \<lparr>longitude = Some 116.3974, latitude = Some 39.9093,
                    altitude = Some 50.0\<rparr>)"

definition bodyToEcef :: "body_params option \<Rightarrow> error + xyz" where
  "bodyToEcef params =
     (case params of
        None \<Rightarrow> Inl MissingParameter
      | Some p \<Rightarrow>
          if aircraftPositionLla p = None \<or> aircraftAttitude p = None \<or> bodyCoord p = None
          then Inl MissingParameter
          else Inr \<lparr>xyz_x = Some (-2178183.23), xyz_y = Some 4385320.32,
                    xyz_z = Some 4077003.58\<rparr>)"

definition ecefToBody :: "body_params option \<Rightarrow> error + xyz" where
  "ecefToBody params =
     (case params of
        None \<Rightarrow> Inl MissingParameter
      | Some p \<Rightarrow>
          if aircraftPositionLla p = None \<or> aircraftAttitude p = None \<or> ecefCoord p = None
          then Inl MissingParameter
          else Inr \<lparr>xyz_x = Some 10.0, xyz_y = Some 0.0, xyz_z = Some 0.0\<rparr>)"

text \<open>
  The two compositions the round-trip properties speak of: the result of the first
  conversion is the argument of the second, and a thrown error ends the composition.
\<close>

definition lla_roundtrip :: "lla \<Rightarrow> error + lla" where
  "lla_roundtrip p =
     (case llaToEcef (Some p) of
        Inl err \<Rightarrow> Inl err
      | Inr c \<Rightarrow> ecefToLla (Some c))"

definition body_roundtrip :: "lla \<Rightarrow> attitude \<Rightarrow> xyz \<Rightarrow> error + xyz" where
  "body_roundtrip pos att b =
     (case bodyToEcef (Some \<lparr>aircraftPositionLla = Some pos, aircraftAttitude = Some att,
                              bodyCoord = Some b, ecefCoord = None\<rparr>) of
        Inl err \<Rightarrow> Inl err
      | Inr c \<Rightarrow>
          ecefToBody (Some \<lparr>aircraftPositionLla = Some pos, aircraftAttitude = Some att,
                             bodyCoord = None, ecefCoord = Some c\<rparr>))"

section \<open>occlusionChecker and signalStrengthCalculator\<close>

text \<open>
  An ECEF position \<open>{x, y, z}\<close> whose fields the code uses in arithmetic without a
  presence test (\<open>ecef_x\<close> is the source's \<open>x\<close>), and the parameter object the two
  modules read. \<open>checkOcclusion\<close> reads only the two positions.
\<close>

record ecef =
  ecef_x :: real
  ecef_y :: real
  ecef_z :: real

record link_params =
  aircraftPosition :: "ecef option"
  satellitePosition :: "ecef option"
  transmitterPower :: "real option"
  frequency :: "real option"
  satelliteAntennaGain :: "real option"
  aircraftAntennaGain :: "real option"



definition SPEED_OF_LIGHT :: real where
  "SPEED_OF_LIGHT = 299792458.0"

definition FOUR_PI_OVER_C :: real where
  "FOUR_PI_OVER_C = (4 * pi) / SPEED_OF_LIGHT"



definition gain_or_default :: "real option \<Rightarrow> real" where
  "gain_or_default g = (case g of None \<Rightarrow> 0 | Some v \<Rightarrow> v)"









definition euclidean_distance :: "ecef \<Rightarrow> ecef \<Rightarrow> real" where
  "euclidean_distance observer target =
     sqrt ((ecef_x target - ecef_x observer)\<^sup>2 + (ecef_y target - ecef_y observer)\<^sup>2
           + (ecef_z target - ecef_z observer)\<^sup>2)"

text \<open>The free-space path loss as the specification writes it, with \<open>c = 299792458\<close>.\<close>

definition fspl :: "real \<Rightarrow> real \<Rightarrow> real" where
  "fspl d f = 20 * log 10 d + 20 * log 10 f + 20 * log 10 (4 * pi / 299792458)"

section \<open>satelliteCalculator\<close>

text \<open>
  The ephemeris objects. \<open>ecc\<close> is the source's field \<open>e\<close> and \<open>sat_id\<close> its field
  \<open>id\<close>. A \<open>Date\<close> is its \<open>getTime()\<close>, the milliseconds since the Unix epoch. The code
  tests \<open>satellites\<close>, \<open>orbitalParameters\<close>, \<open>timeParameters\<close>, \<open>validFrom\<close> and
  \<open>validTo\<close> for presence, and uses the orbital elements in arithmetic as they are.
\<close>

record orbital_elements =
  toe :: real
  m0 :: real
  deltaN :: real
  ecc :: real
  rootA :: real
  cuc :: real
  cus :: real
  crc :: real
  crs :: real
  cic :: real
  cis :: real
  i0 :: real
  idot :: real
  omega0 :: real
  omega :: real
  omegadot :: real

record time_parameters =
  validFrom :: "int option"
  validTo :: "int option"

record satellite_entry =
  sat_id :: string
  orbitalParameters :: "orbital_elements option"
  timeParameters :: "time_parameters option"

record rinex_data =
  satellites :: "satellite_entry list option"

record position_params =
  rinexData :: "rinex_data option"
  satelliteId :: "string option"
  timestamp :: "int option"

definition EARTH_ROTATION_RATE :: real where
  "EARTH_ROTATION_RATE = 0.000072921151467"

definition EARTH_GRAVITATIONAL_CONSTANT :: real where
  "EARTH_GRAVITATIONAL_CONSTANT = 398600441800000"

definition GPS_SECONDS_PER_WEEK :: real where
  "GPS_SECONDS_PER_WEEK = 604800"

definition UNIX_TO_GPS_EPOCH_SECONDS :: real where
  "UNIX_TO_GPS_EPOCH_SECONDS = 315964800"

text \<open>
  The remainder operator \<open>%\<close> of JavaScript: the quotient is truncated towards zero, so
  the result has the sign of the dividend. \<open>Math.atan2\<close> by its cases on the signs.
\<close>

definition js_trunc :: "real \<Rightarrow> int" where
  "js_trunc v = (if 0 \<le> v then \<lfloor>v\<rfloor> else \<lceil>v\<rceil>)"

definition js_rem :: "real \<Rightarrow> real \<Rightarrow> real" where
  "js_rem a b = a - b * of_int (js_trunc (a / b))"

definition Math_atan2 :: "real \<Rightarrow> real \<Rightarrow> real" where
  "Math_atan2 y x =
     (if 0 < x then arctan (y / x)
      else if x < 0 then (if 0 \<le> y then arctan (y / x) + pi else arctan (y / x) - pi)
      else if 0 < y then pi / 2
      else if y < 0 then - (pi / 2)
      else 0)"

text \<open>
  \<open>rinexData.satellites && rinexData.satellites.find(sat => sat.id === satelliteId)\<close>:
  the first entry with the id, if the list is there and has one.
\<close>

definition findSatellite :: "rinex_data \<Rightarrow> string \<Rightarrow> satellite_entry option" where
  "findSatellite rd sid =
     (case satellites rd of
        None \<Rightarrow> None
      | Some sats \<Rightarrow> find (\<lambda>sat. sat_id sat = sid) sats)"

text \<open>
  The validity test: made only when \<open>timeParameters\<close>, \<open>validFrom\<close> and \<open>validTo\<close> are
  all present; it fails for a time before \<open>validFrom\<close> or after \<open>validTo\<close>.
\<close>

definition outsideValidity :: "satellite_entry \<Rightarrow> int \<Rightarrow> bool" where
  "outsideValidity satelliteData calculationTime =
     (case timeParameters satelliteData of
        None \<Rightarrow> False
      | Some timeParams \<Rightarrow>
         (case validFrom timeParams of
            None \<Rightarrow> False
          | Some vf \<Rightarrow>
             (case validTo timeParams of
                None \<Rightarrow> False
              | Some vt \<Rightarrow> calculationTime < vf \<or> calculationTime > vt)))"

text \<open>Step 1: the time \<open>tk\<close> from the reference epoch, with the week crossover.\<close>

definition timeFromEpoch :: "orbital_elements \<Rightarrow> int \<Rightarrow> real" where
  "timeFromEpoch orbitalParams t =
     (let utcTimestampSeconds = real_of_int t / 1000;
          gpsTotalSeconds = utcTimestampSeconds - UNIX_TO_GPS_EPOCH_SECONDS;
          t_sow = js_rem gpsTotalSeconds GPS_SECONDS_PER_WEEK;
          tk = t_sow - toe orbitalParams;
          halfWeek = GPS_SECONDS_PER_WEEK / 2
      in if tk > halfWeek then tk - GPS_SECONDS_PER_WEEK
         else if tk < - halfWeek then tk + GPS_SECONDS_PER_WEEK
         else tk)"

text \<open>
  Step 2: the mean anomaly, normalised with two remainders. For \<open>rootA = 0\<close> the
  division is by zero: the mean motion is \<open>Infinity\<close>, \<open>Mk\<close> is an infinity or NaN and its
  remainder is NaN. That outcome is \<open>None\<close>.
\<close>

definition meanAnomaly :: "orbital_elements \<Rightarrow> real \<Rightarrow> real option" where
  "meanAnomaly orbitalParams tk =
     (if rootA orbitalParams ^ 6 = 0 then None
      else
        let n0 = sqrt (EARTH_GRAVITATIONAL_CONSTANT / rootA orbitalParams ^ 6);
            n = n0 + deltaN orbitalParams;
            Mk = m0 orbitalParams + n * tk
        in Some (js_rem (js_rem Mk (2 * pi) + 2 * pi) (2 * pi)))"

text \<open>
  Step 3: the \<open>do ... while\<close> loop of the Newton-Raphson iteration. One pass computes the
  next iterate from \<open>Ek\<close> and counts it; the loop goes on while the last two iterates
  differ by more than the tolerance and fewer than 100 passes are done. The function
  returns the loop's variables \<open>(Ek, Ek_prev, iterations)\<close> as they are when it ends.
  Where the denominator \<open>1 - e cos Ek\<close> is zero the quotient is an infinity or NaN: if it
  is NaN so is the new \<open>Ek\<close>, the comparison with the tolerance is false and the loop
  ends; if it is an infinity the next pass takes the sine of an infinity and ends the
  same way, unless the cap ends the loop first. In each case the loop ends with an \<open>Ek\<close>
  that is not a finite number, and that outcome is \<open>None\<close>.
\<close>

definition tolerance :: real where
  "tolerance = 1 / 10 ^ 12"

definition newtonStep :: "real \<Rightarrow> real \<Rightarrow> real \<Rightarrow> real" where
  "newtonStep e normalizedMk Ek_prev =
     Ek_prev - (Ek_prev - e * sin Ek_prev - normalizedMk) / (1 - e * cos Ek_prev)"

function keplerLoop :: "real \<Rightarrow> real \<Rightarrow> real \<Rightarrow> nat \<Rightarrow> (real \<times> real \<times> nat) option" where
  "keplerLoop e normalizedMk Ek iterations =
     (if 1 - e * cos Ek = 0 then None
      else if \<bar>newtonStep e normalizedMk Ek - Ek\<bar> > tolerance \<and> iterations + 1 < 100
      then keplerLoop e normalizedMk (newtonStep e normalizedMk Ek) (iterations + 1)
      else Some (newtonStep e normalizedMk Ek, Ek, iterations + 1))"
  by pat_completeness auto
termination
  by (relation "measure (\<lambda>(e, normalizedMk, Ek, iterations). 100 - iterations)") auto

declare keplerLoop.simps [simp del]

definition solveKepler :: "real \<Rightarrow> real \<Rightarrow> (real \<times> real \<times> nat) option" where
  "solveKepler e normalizedMk = keplerLoop e normalizedMk normalizedMk 0"

text \<open>
  What the propagation returns: an object \<open>{x, y, z}\<close> of three numbers, or the object
  whose three coordinates are NaN.
\<close>

datatype position = Position ecef | NaNPosition

text \<open>
  Steps 4 to 10: from the eccentric anomaly to the ECEF position. Where \<open>1 - e\<^sup>2\<close> is
  negative \<open>Math.sqrt\<close> is NaN, so are the true anomaly and all that is computed from
  it, the three coordinates among them.
\<close>

definition positionFromAnomaly :: "orbital_elements \<Rightarrow> real \<Rightarrow> real \<Rightarrow> position" where
  "positionFromAnomaly orbitalParams tk Ek =
     (if 1 - (ecc orbitalParams)\<^sup>2 < 0 then NaNPosition
      else
      let vk = Math_atan2 (sqrt (1 - (ecc orbitalParams)\<^sup>2) * sin Ek)
                          (cos Ek - ecc orbitalParams);
          phik = vk + omega orbitalParams;
          deltaUk = cus orbitalParams * sin (2 * phik) + cuc orbitalParams * cos (2 * phik);
          deltaRk = crs orbitalParams * sin (2 * phik) + crc orbitalParams * cos (2 * phik);
          deltaIk = cis orbitalParams * sin (2 * phik) + cic orbitalParams * cos (2 * phik);
          uk = phik + deltaUk;
          rk = (rootA orbitalParams)\<^sup>2 * (1 - ecc orbitalParams * cos Ek) + deltaRk;
          ik = i0 orbitalParams + deltaIk + idot orbitalParams * tk;
          xk_prime = rk * cos uk;
          yk_prime = rk * sin uk;
          Omegak = omega0 orbitalParams
                   + (omegadot orbitalParams - EARTH_ROTATION_RATE) * tk
                   - EARTH_ROTATION_RATE * toe orbitalParams;
          xk = xk_prime * cos Omegak - yk_prime * cos ik * sin Omegak;
          yk = xk_prime * sin Omegak + yk_prime * cos ik * cos Omegak;
          zk = yk_prime * sin ik
      in Position \<lparr>ecef_x = xk, ecef_y = yk, ecef_z = zk\<rparr>)"

text \<open>
  Steps 1 to 10 together. With a mean anomaly or an eccentric anomaly that is not a
  finite number every coordinate is NaN.
\<close>

definition propagate :: "orbital_elements \<Rightarrow> int \<Rightarrow> position" where
  "propagate orbitalParams t =
     (let tk = timeFromEpoch orbitalParams t
      in case meanAnomaly orbitalParams tk of
           None \<Rightarrow> NaNPosition
         | Some normalizedMk \<Rightarrow>
            (case solveKepler (ecc orbitalParams) normalizedMk of
               None \<Rightarrow> NaNPosition
             | Some (Ek, Ek_prev, iterations) \<Rightarrow> positionFromAnomaly orbitalParams tk Ek))"

text \<open>
  \<open>calculateSatellitePosition\<close>, the version with the orbit computation. An empty
  \<open>satelliteId\<close> is falsy, so the first test rejects it with the other missing parameters.
\<close>

definition calculateSatellitePosition :: "position_params option \<Rightarrow> error + position" where
  "calculateSatellitePosition params =
     (case params of
        None \<Rightarrow> Inl MissingParameter
      | Some p \<Rightarrow>
     (case rinexData p of
        None \<Rightarrow> Inl MissingParameter
      | Some rd \<Rightarrow>
     (case satelliteId p of
        None \<Rightarrow> Inl MissingParameter
      | Some sid \<Rightarrow>
          if sid = [] then Inl MissingParameter
          else
     (case timestamp p of
        None \<Rightarrow> Inl MissingParameter
      | Some t \<Rightarrow>
     (case findSatellite rd sid of
        None \<Rightarrow> Inl (SatelliteNotFound sid)
      | Some satelliteData \<Rightarrow>
     (case orbitalParameters satelliteData of
        None \<Rightarrow> Inl (MissingOrbitalParameters sid)
      | Some orbitalParams \<Rightarrow>
          if outsideValidity satelliteData t then Inl OutOfValidityRange
          else Inr (propagate orbitalParams t)))))))"

text \<open>
  The earlier version of the same module: the same three tests, no validity test, and a
  fixed position in place of the orbit computation.
\<close>

definition calculateSatellitePosition_placeholder :: "position_params option \<Rightarrow> error + position" where
  "calculateSatellitePosition_placeholder params =
     (case params of
        None \<Rightarrow> Inl MissingParameter
      | Some p \<Rightarrow>
     (case rinexData p of
        None \<Rightarrow> Inl MissingParameter
      | Some rd \<Rightarrow>
     (case satelliteId p of
        None \<Rightarrow> Inl MissingParameter
      | Some sid \<Rightarrow>
          if sid = [] then Inl MissingParameter
          else
     (case timestamp p of
        None \<Rightarrow> Inl MissingParameter
      | Some t \<Rightarrow>
     (case findSatellite rd sid of
        None \<Rightarrow> Inl (SatelliteNotFound sid)
      | Some satelliteData \<Rightarrow>
     (case orbitalParameters satelliteData of
        None \<Rightarrow> Inl (MissingOrbitalParameters sid)
      | Some orbitalParams \<Rightarrow>
          Inr (Position \<lparr>ecef_x = 12345678.9, ecef_y = 9876543.2,
                          ecef_z = 3456789.1\<rparr>)))))))"

section \<open>Ephemeris data of the unit tests\<close>

text \<open>
  The broadcast elements of the test "standard example ephemeris" and its validity window,
  2025-01-01 00:00 to 04:00 UTC in milliseconds, and an entry that has an id only.
\<close>

definition standardExampleElements :: orbital_elements where
  "standardExampleElements =
     \<lparr>toe = 514400, m0 = 0.9273326282776, deltaN = 0.0000000050733699174431,
      ecc = 0.0878211382021, rootA = 5153.60495068,
      cuc = 0.0000023204375267029, cus = 0.00000089406967163086,
      crc = 294.375, crs = - 106.25,
      cic = - 0.000000055879354476929, cis = 0.0000000074505805969238,
      i0 = 0.95825998774862, idot = - 0.00000000029088820866572,
      omega0 = 1.7045213187267, omega = - 1.483529841423, omegadot = - 0.00007292115\<rparr>"

definition standardExampleEntry :: satellite_entry where
  "standardExampleEntry =
     \<lparr>sat_id = ''B01'', orbitalParameters = Some standardExampleElements,
      timeParameters = Some \<lparr>validFrom = Some 1735689600000, validTo = Some 1735704000000\<rparr>\<rparr>"

definition entryWithoutWindow :: satellite_entry where
  "entryWithoutWindow =
     \<lparr>sat_id = ''B02'', orbitalParameters = Some standardExampleElements,
      timeParameters = Some \<lparr>validFrom = Some 1735689600000, validTo = None\<rparr>\<rparr>"

definition entryWithIdOnly :: satellite_entry where
  "entryWithIdOnly = \<lparr>sat_id = ''G01'', orbitalParameters = None, timeParameters = None\<rparr>"

definition exampleRinexData :: rinex_data where
  "exampleRinexData =
     \<lparr>satellites = Some [entryWithIdOnly, standardExampleEntry, entryWithoutWindow]\<rparr>"

section \<open>Inputs to the Newton-Raphson iteration\<close>

text \<open>
  An eccentricity and a mean anomaly for which the iteration, started at the mean anomaly
  as the code starts it, alternates between two values for ever. With \<open>a = arctan (1/4)\<close>
  they are \<open>e = sin a / sin (2 a - 1/4)\<close>, about 1.0205, and \<open>M = 1/4 - a\<close>, about
  0.00502; the iterates alternate between \<open>M\<close> and \<open>- a\<close>. The derivative of the twofold
  step along the cycle is about -0.39, so the cycle attracts the iterates near it.
\<close>

definition stableCycleEccentricity :: real where
  "stableCycleEccentricity = sin (arctan (1 / 4)) / sin (2 * arctan (1 / 4) - 1 / 4)"

definition stableCycleMeanAnomaly :: real where
  "stableCycleMeanAnomaly = 1 / 4 - arctan (1 / 4)"

text \<open>
  An ephemeris entry with this pair: reference time 0, no mean-motion correction and no
  perturbation, to be propagated at the GPS epoch itself (1980-01-06, 315964800000 ms
  after the Unix epoch), where \<open>tk = 0\<close> and the mean anomaly is \<open>m0\<close>.
\<close>

definition stableCycleElements :: orbital_elements where
  "stableCycleElements =
     \<lparr>toe = 0, m0 = stableCycleMeanAnomaly, deltaN = 0,
      ecc = stableCycleEccentricity, rootA = 5153.60495068,
      cuc = 0, cus = 0, crc = 0, crs = 0, cic = 0, cis = 0,
      i0 = 0, idot = 0, omega0 = 0, omega = 0, omegadot = 0\<rparr>"

text \<open>
  A pair with an eccentricity below 1 on which the iteration does not settle either:
  \<open>e = 0.97512\<close> and \<open>M = 0.191564\<close>. From the mean anomaly the first step goes to about
  4.537761 and the second to within 1e-4 of 0, where the derivative \<open>1 - e cos E\<close> is
  smallest; from there the step goes to within 1e-6 of 7.699517 and from there back to
  within 1e-4 of 0, and so on. \<open>trapped\<close> is the set of these values: the start, the
  three intervals.
\<close>

definition trappedEccentricity :: real where
  "trappedEccentricity = 0.97512"

definition trappedMeanAnomaly :: real where
  "trappedMeanAnomaly = 0.191564"

definition trapped :: "real \<Rightarrow> bool" where
  "trapped E \<longleftrightarrow>
     E = trappedMeanAnomaly \<or> \<bar>E - 4.537761\<bar> \<le> 1 / 10 ^ 6 \<or> \<bar>E\<bar> \<le> 1 / 10 ^ 4
     \<or> \<bar>E - 7.699517\<bar> \<le> 1 / 10 ^ 6"

text \<open>
  An ephemeris entry on which the iteration converges in two passes: eccentricity 1/2 and
  mean anomaly 1e-7 at the reference time.
\<close>

definition convergentElements :: orbital_elements where
  "convergentElements =
     \<lparr>toe = 0, m0 = 1 / 10 ^ 7, deltaN = 0,
      ecc = 1 / 2, rootA = 5153.60495068,
      cuc = 0, cus = 0, crc = 0, crs = 0, cic = 0, cis = 0,
      i0 = 0, idot = 0, omega0 = 0, omega = 0, omegadot = 0\<rparr>"

definition cycleRinexData :: rinex_data where
  "cycleRinexData =
     \<lparr>satellites = Some
        [\<lparr>sat_id = ''K01'', orbitalParameters = Some stableCycleElements,
          timeParameters = None\<rparr>,
         \<lparr>sat_id = ''K02'', orbitalParameters = Some convergentElements,
          timeParameters = None\<rparr>]\<rparr>"

section \<open>calculateSignalStrength with the range of doubles\<close>

text \<open>
  A second model of \<open>calculateSignalStrength\<close>, for what the first leaves out: a double
  has a largest finite value, and an operation whose exact result is too large in
  magnitude to round to a finite double gives an infinity (the bound is
  \<open>2 ^ 1024 - 2 ^ 970\<close>, half a unit in the last place above the largest double). A number is
  then a real, one of the two infinities or NaN. Rounding within the range is left out as
  before: an operation on finite numbers whose exact result is within the range gives
  that result. So is underflow: a product too small for a double is zero in the code
  and itself here. The arguments of the function are finite numbers.
\<close>

datatype number = Num real | PosInf | NegInf | NaN

definition OVERFLOW_BOUND :: real where
  "OVERFLOW_BOUND = 2 ^ 1024 - 2 ^ 970"

definition ranged :: "real \<Rightarrow> number" where
  "ranged r = (if OVERFLOW_BOUND \<le> r then PosInf
               else if r \<le> - OVERFLOW_BOUND then NegInf
               else Num r)"

fun num_add :: "number \<Rightarrow> number \<Rightarrow> number" where
  "num_add NaN _ = NaN"
| "num_add _ NaN = NaN"
| "num_add (Num a) (Num b) = ranged (a + b)"
| "num_add PosInf NegInf = NaN"
| "num_add NegInf PosInf = NaN"
| "num_add PosInf _ = PosInf"
| "num_add _ PosInf = PosInf"
| "num_add NegInf _ = NegInf"
| "num_add _ NegInf = NegInf"

fun num_neg :: "number \<Rightarrow> number" where
  "num_neg (Num a) = Num (- a)"
| "num_neg PosInf = NegInf"
| "num_neg NegInf = PosInf"
| "num_neg NaN = NaN"

definition num_sub :: "number \<Rightarrow> number \<Rightarrow> number" where
  "num_sub a b = num_add a (num_neg b)"

text \<open>The sign of a number that is not NaN, for the product with an infinity.\<close>

fun num_sign :: "number \<Rightarrow> int" where
  "num_sign (Num a) = (if 0 < a then 1 else if a < 0 then - 1 else 0)"
| "num_sign PosInf = 1"
| "num_sign NegInf = - 1"
| "num_sign NaN = 0"

fun num_mul :: "number \<Rightarrow> number \<Rightarrow> number" where
  "num_mul NaN _ = NaN"
| "num_mul _ NaN = NaN"
| "num_mul (Num a) (Num b) = ranged (a * b)"
| "num_mul a b =
     (if num_sign a * num_sign b = 0 then NaN
      else if 0 < num_sign a * num_sign b then PosInf
      else NegInf)"

fun num_sqrt :: "number \<Rightarrow> number" where
  "num_sqrt (Num a) = (if a < 0 then NaN else Num (sqrt a))"
| "num_sqrt PosInf = PosInf"
| "num_sqrt NegInf = NaN"
| "num_sqrt NaN = NaN"

fun num_log10 :: "number \<Rightarrow> number" where
  "num_log10 (Num a) = (if a < 0 then NaN else if a = 0 then NegInf else Num (log 10 a))"
| "num_log10 PosInf = PosInf"
| "num_log10 NegInf = NaN"
| "num_log10 NaN = NaN"

text \<open>The comparison \<open>a <= b\<close>, false when either side is NaN.\<close>

fun num_le :: "number \<Rightarrow> number \<Rightarrow> bool" where
  "num_le NaN _ = False"
| "num_le _ NaN = False"
| "num_le (Num a) (Num b) = (a \<le> b)"
| "num_le NegInf _ = True"
| "num_le _ PosInf = True"
| "num_le _ _ = False"

definition calculateDistance_ranged :: "ecef \<Rightarrow> ecef \<Rightarrow> number" where
  "calculateDistance_ranged pos1 pos2 =
     (let dx = num_sub (Num (ecef_x pos1)) (Num (ecef_x pos2));
          dy = num_sub (Num (ecef_y pos1)) (Num (ecef_y pos2));
          dz = num_sub (Num (ecef_z pos1)) (Num (ecef_z pos2))
      in num_sqrt (num_add (num_add (num_mul dx dx) (num_mul dy dy)) (num_mul dz dz)))"

definition calculateSignalStrength_ranged :: "link_params option \<Rightarrow> error + number" where
  "calculateSignalStrength_ranged params =
     (case params of
        None \<Rightarrow> Inl MissingParameter
      | Some p \<Rightarrow>
         (case aircraftPosition p of
            None \<Rightarrow> Inl MissingParameter
          | Some aircraft \<Rightarrow>
         (case satellitePosition p of
            None \<Rightarrow> Inl MissingParameter
          | Some satellite \<Rightarrow>
         (case transmitterPower p of
            None \<Rightarrow> Inl MissingParameter
          | Some txPower \<Rightarrow>
         (case frequency p of
            None \<Rightarrow> Inl MissingParameter
          | Some freq \<Rightarrow>
              let satGain = gain_or_default (satelliteAntennaGain p);
                  acGain = gain_or_default (aircraftAntennaGain p);
                  distance = calculateDistance_ranged aircraft satellite
              in if num_le distance (Num 0) \<or> freq \<le> 0 then Inr NegInf
                 else
                   let fslp = num_add
                                (num_add (num_mul (Num 20) (num_log10 distance))
                                         (num_mul (Num 20) (num_log10 (Num freq))))
                                (num_mul (Num 20) (num_log10 (Num FOUR_PI_OVER_C)));
                       receivedPowerDbw =
                         num_sub (num_add (num_add (Num txPower) (Num satGain)) (Num acGain))
                                 fslp;
                       receivedPowerDbm = num_add receivedPowerDbw (Num 30)
                   in Inr receivedPowerDbm)))))"

text \<open>
  Arguments for which no operation of \<open>calculateSignalStrength\<close> leaves the range:
  coordinates, power and gains of magnitude at most \<open>10 ^ 150\<close>, a frequency between
  \<open>1 / 10 ^ 150\<close> and \<open>10 ^ 150\<close>, and a distance of at least \<open>1 / 10 ^ 150\<close>.
\<close>

definition moderate :: "real \<Rightarrow> bool" where
  "moderate r \<longleftrightarrow> \<bar>r\<bar> \<le> 10 ^ 150"

definition moderate_link :: "ecef \<Rightarrow> ecef \<Rightarrow> real \<Rightarrow> real \<Rightarrow> real option \<Rightarrow> real option \<Rightarrow> bool" where
  "moderate_link a s tp f sg rg \<longleftrightarrow>
     moderate (ecef_x a) \<and> moderate (ecef_y a) \<and> moderate (ecef_z a)
     \<and> moderate (ecef_x s) \<and> moderate (ecef_y s) \<and> moderate (ecef_z s)
     \<and> moderate tp \<and> moderate (gain_or_default sg) \<and> moderate (gain_or_default rg)
     \<and> 1 / 10 ^ 150 \<le> f \<and> f \<le> 10 ^ 150
     \<and> 1 / 10 ^ 150 \<le> euclidean_distance a s"

section \<open>Round trips of the converter\<close>

text \<open>
  C1 (the code at a failing input). The claim asks that \<open>ecefToLla (llaToEcef p)\<close> is
  \<open>p\<close> within 1e-6 m of altitude and 1e-9 rad of angle for every geodetic \<open>p\<close>. At the point
  of longitude 0, latitude 0 and altitude 0 the code returns longitude 116.3974, latitude
  39.9093 and altitude 50: the altitude is off by 50 m and both angles by more than a degree.
\<close>

theorem lla_roundtrip_at_origin:
  "lla_roundtrip \<lparr>longitude = Some 0, latitude = Some 0, altitude = Some 0\<rparr>
     = Inr \<lparr>longitude = Some 116.3974, latitude = Some 39.9093, altitude = Some 50\<rparr>
   \<and> \<bar>50 - (0::real)\<bar> > 1 / 10 ^ 6
   \<and> \<bar>116.3974 - (0::real)\<bar> > 1 \<and> \<bar>39.9093 - (0::real)\<bar> > 1"
  by (simp add: lla_roundtrip_def llaToEcef_def ecefToLla_def)

text \<open>
  C8 (the code at a failing input). The claim asks that \<open>ecefToBody\<close> undoes
  \<open>bodyToEcef\<close> for the same aircraft position and attitude. For an aircraft at longitude
  116.3974, latitude 39.9093, altitude 10000 with zero attitude, the body point (0, 0, 0)
  comes back as (10, 0, 0): ten metres off along the nose axis.
\<close>

theorem body_roundtrip_at_zero_offset:
  "body_roundtrip \<lparr>longitude = Some 116.3974, latitude = Some 39.9093, altitude = Some 10000\<rparr>
                  \<lparr>roll = 0, pitch = 0, yaw = 0\<rparr>
                  \<lparr>xyz_x = Some 0, xyz_y = Some 0, xyz_z = Some 0\<rparr>
     = Inr \<lparr>xyz_x = Some 10, xyz_y = Some 0, xyz_z = Some 0\<rparr>
   \<and> \<bar>10 - (0::real)\<bar> \<ge> 10"
  by (simp add: body_roundtrip_def bodyToEcef_def ecefToBody_def)

section \<open>Occlusion\<close>











section \<open>Signal strength\<close>





subsection \<open>The range of doubles\<close>

lemma overflow_bound_large: "10 ^ 305 < OVERFLOW_BOUND"
  by (simp add: OVERFLOW_BOUND_def)

lemma ranged_Num: "\<bar>r\<bar> \<le> 10 ^ 305 \<Longrightarrow> ranged r = Num r"
  using overflow_bound_large by (auto simp: ranged_def)

lemma ranged_ops:
  "\<bar>a + b\<bar> \<le> 10 ^ 305 \<Longrightarrow> num_add (Num a) (Num b) = Num (a + b)"
  "\<bar>a - b\<bar> \<le> 10 ^ 305 \<Longrightarrow> num_sub (Num a) (Num b) = Num (a - b)"
  "\<bar>a * b\<bar> \<le> 10 ^ 305 \<Longrightarrow> num_mul (Num a) (Num b) = Num (a * b)"
  by (simp_all add: num_sub_def ranged_Num)

lemma log10_bounds:
  fixes x :: real
  assumes "1 / 10 ^ n \<le> x" "x \<le> 10 ^ m"
  shows "- real n \<le> log 10 x" "log 10 x \<le> real m"
proof -
  have pos: "0 < x"
  proof -
    have "(0::real) < 1 / 10 ^ n" by simp
    with assms(1) show ?thesis by linarith
  qed
  have "log 10 (1 / 10 ^ n) \<le> log 10 x"
    using assms(1) pos by (subst log_le_cancel_iff) simp_all
  moreover have "log 10 (1 / 10 ^ n) = - real n"
    by (simp add: log_divide log_nat_power)
  ultimately show "- real n \<le> log 10 x" by simp
  have "log 10 x \<le> log 10 (10 ^ m)"
    using assms(2) pos by (subst log_le_cancel_iff) simp_all
  moreover have "log 10 (10 ^ m) = real m"
    by (simp add: log_nat_power)
  ultimately show "log 10 x \<le> real m" by simp
qed

lemma moderate_difference:
  assumes "moderate a" "moderate b"
  shows "\<bar>a - b\<bar> \<le> 10 ^ 305" "0 \<le> (a - b) * (a - b)" "(a - b) * (a - b) \<le> 4 * 10 ^ 300"
proof -
  have ab: "\<bar>a - b\<bar> \<le> 2 * 10 ^ 150"
    using assms unfolding moderate_def by linarith
  then show "\<bar>a - b\<bar> \<le> 10 ^ 305" by simp
  show "0 \<le> (a - b) * (a - b)" by simp
  have "\<bar>a - b\<bar> \<le> \<bar>2 * 10 ^ 150 :: real\<bar>" using ab by simp
  then have "(a - b)\<^sup>2 \<le> (2 * 10 ^ 150)\<^sup>2" by (simp only: abs_le_square_iff)
  then show "(a - b) * (a - b) \<le> 4 * 10 ^ 300" by (simp add: power2_eq_square)
qed

lemma calculateDistance_ranged_moderate:
  assumes "moderate (ecef_x a)" "moderate (ecef_y a)" "moderate (ecef_z a)"
    and "moderate (ecef_x s)" "moderate (ecef_y s)" "moderate (ecef_z s)"
  shows "calculateDistance_ranged a s = Num (euclidean_distance a s)"
    and "euclidean_distance a s \<le> 10 ^ 151"
proof -
  define dx where "dx = ecef_x a - ecef_x s"
  define dy where "dy = ecef_y a - ecef_y s"
  define dz where "dz = ecef_z a - ecef_z s"
  have x: "\<bar>ecef_x a - ecef_x s\<bar> \<le> 10 ^ 305" "0 \<le> dx * dx" "dx * dx \<le> 4 * 10 ^ 300"
    using moderate_difference [OF assms(1) assms(4)] by (simp_all add: dx_def)
  have y: "\<bar>ecef_y a - ecef_y s\<bar> \<le> 10 ^ 305" "0 \<le> dy * dy" "dy * dy \<le> 4 * 10 ^ 300"
    using moderate_difference [OF assms(2) assms(5)] by (simp_all add: dy_def)
  have z: "\<bar>ecef_z a - ecef_z s\<bar> \<le> 10 ^ 305" "0 \<le> dz * dz" "dz * dz \<le> 4 * 10 ^ 300"
    using moderate_difference [OF assms(3) assms(6)] by (simp_all add: dz_def)
  have sx: "num_sub (Num (ecef_x a)) (Num (ecef_x s)) = Num dx"
    using x(1) by (simp add: ranged_ops dx_def)
  have sy: "num_sub (Num (ecef_y a)) (Num (ecef_y s)) = Num dy"
    using y(1) by (simp add: ranged_ops dy_def)
  have sz: "num_sub (Num (ecef_z a)) (Num (ecef_z s)) = Num dz"
    using z(1) by (simp add: ranged_ops dz_def)
  have big: "(12 * 10 ^ 300 :: real) \<le> 10 ^ 305" "(0::real) \<le> 10 ^ 300" by simp_all
  have mx: "num_mul (Num dx) (Num dx) = Num (dx * dx)"
    using x(2,3) big by (intro ranged_ops) linarith
  have my: "num_mul (Num dy) (Num dy) = Num (dy * dy)"
    using y(2,3) big by (intro ranged_ops) linarith
  have mz: "num_mul (Num dz) (Num dz) = Num (dz * dz)"
    using z(2,3) big by (intro ranged_ops) linarith
  have a1: "num_add (Num (dx * dx)) (Num (dy * dy)) = Num (dx * dx + dy * dy)"
    using x(2,3) y(2,3) big by (intro ranged_ops) linarith
  have a2: "num_add (Num (dx * dx + dy * dy)) (Num (dz * dz)) = Num (dx * dx + dy * dy + dz * dz)"
    using x(2,3) y(2,3) z(2,3) big by (intro ranged_ops) linarith
  have nonneg: "0 \<le> dx * dx + dy * dy + dz * dz"
    using x(2) y(2) z(2) by linarith
  have sq: "num_sqrt (Num (dx * dx + dy * dy + dz * dz)) = Num (sqrt (dx * dx + dy * dy + dz * dz))"
    using nonneg by (simp add: not_less)
  have eu: "euclidean_distance a s = sqrt (dx * dx + dy * dy + dz * dz)"
    by (simp add: euclidean_distance_def dx_def dy_def dz_def power2_eq_square algebra_simps)
  show "calculateDistance_ranged a s = Num (euclidean_distance a s)"
    unfolding calculateDistance_ranged_def Let_def sx sy sz mx my mz a1 a2 sq eu ..
  have "dx * dx + dy * dy + dz * dz \<le> (10 ^ 151)\<^sup>2"
    using x(3) y(3) z(3) by simp
  then have "sqrt (dx * dx + dy * dy + dz * dz) \<le> 10 ^ 151"
    by (intro real_le_lsqrt) simp_all
  then show "euclidean_distance a s \<le> 10 ^ 151" by (simp only: eu)
qed

lemma FOUR_PI_OVER_C_bounds: "1 / 10 ^ 8 \<le> FOUR_PI_OVER_C" "FOUR_PI_OVER_C \<le> 10 ^ 0"
  using pi_ge_two pi_less_4 by (simp_all add: FOUR_PI_OVER_C_def SPEED_OF_LIGHT_def field_simps)

lemma calculateSignalStrength_ranged_unfold:
  "calculateSignalStrength_ranged (Some \<lparr>aircraftPosition = Some a, satellitePosition = Some s,
       transmitterPower = Some tp, frequency = Some f, satelliteAntennaGain = sg,
       aircraftAntennaGain = rg\<rparr>) =
     (if num_le (calculateDistance_ranged a s) (Num 0) \<or> f \<le> 0 then Inr NegInf
      else Inr (num_add
                 (num_sub
                    (num_add (num_add (Num tp) (Num (gain_or_default sg)))
                       (Num (gain_or_default rg)))
                    (num_add
                       (num_add (num_mul (Num 20) (num_log10 (calculateDistance_ranged a s)))
                          (num_mul (Num 20) (num_log10 (Num f))))
                       (num_mul (Num 20) (num_log10 (Num FOUR_PI_OVER_C)))))
                 (Num 30)))"
  by (simp add: calculateSignalStrength_ranged_def Let_def
      del: num_add.simps num_mul.simps num_log10.simps num_le.simps)

lemma calculateSignalStrength_ranged_moderate:
  assumes "moderate_link a s tp f sg rg"
  shows "calculateSignalStrength_ranged (Some \<lparr>aircraftPosition = Some a,
       satellitePosition = Some s, transmitterPower = Some tp, frequency = Some f,
       satelliteAntennaGain = sg, aircraftAntennaGain = rg\<rparr>) =
     Inr (Num (tp + gain_or_default sg + gain_or_default rg
               - fspl (euclidean_distance a s) f + 30))"
proof -
  define d where "d = euclidean_distance a s"
  define sgv where "sgv = gain_or_default sg"
  define rgv where "rgv = gain_or_default rg"
  define K where "K = FOUR_PI_OVER_C"
  have m: "moderate (ecef_x a)" "moderate (ecef_y a)" "moderate (ecef_z a)"
    "moderate (ecef_x s)" "moderate (ecef_y s)" "moderate (ecef_z s)"
    using assms by (simp_all add: moderate_link_def)
  have g: "\<bar>tp\<bar> \<le> 10 ^ 150" "\<bar>sgv\<bar> \<le> 10 ^ 150" "\<bar>rgv\<bar> \<le> 10 ^ 150"
    using assms by (simp_all add: moderate_link_def moderate_def sgv_def rgv_def)
  have fb: "1 / 10 ^ 150 \<le> f" "f \<le> 10 ^ 150"
    using assms by (simp_all add: moderate_link_def)
  have db: "1 / 10 ^ 150 \<le> d" "d \<le> 10 ^ 151"
    using assms calculateDistance_ranged_moderate(2) [OF m]
    by (simp_all add: moderate_link_def d_def)
  have Kb: "1 / 10 ^ 8 \<le> K" "K \<le> 10 ^ 0"
    using FOUR_PI_OVER_C_bounds by (simp_all add: K_def)
  have dist: "calculateDistance_ranged a s = Num d"
    using calculateDistance_ranged_moderate(1) [OF m] by (simp add: d_def)
  have fpos: "0 < f"
  proof -
    have "(0::real) < 1 / 10 ^ 150" by simp
    with fb(1) show ?thesis by linarith
  qed
  have dpos: "0 < d"
  proof -
    have "(0::real) < 1 / 10 ^ 150" by simp
    with db(1) show ?thesis by linarith
  qed
  have Kpos: "0 < K"
  proof -
    have "(0::real) < 1 / 10 ^ 8" by simp
    with Kb(1) show ?thesis by linarith
  qed
  have ld: "- 150 \<le> log 10 d" "log 10 d \<le> 151"
    using log10_bounds [OF db] by simp_all
  have lf: "- 150 \<le> log 10 f" "log 10 f \<le> 150"
    using log10_bounds [OF fb] by simp_all
  have lK: "- 8 \<le> log 10 K" "log 10 K \<le> 0"
    using log10_bounds [OF Kb] by simp_all
  have guard: "\<not> (num_le (Num d) (Num 0) \<or> f \<le> 0)"
    using dpos fpos by simp
  have l1: "num_log10 (Num d) = Num (log 10 d)" using dpos by simp
  have l2: "num_log10 (Num f) = Num (log 10 f)" using fpos by simp
  have l3: "num_log10 (Num K) = Num (log 10 K)" using Kpos by simp
  have big: "(10 ^ 4 :: real) \<le> 10 ^ 305" "(4 * 10 ^ 150 :: real) \<le> 10 ^ 305"
    "(6200 :: real) \<le> 10 ^ 150"
    by simp_all
  have t1: "num_mul (Num 20) (Num (log 10 d)) = Num (20 * log 10 d)"
    using ld big(1) by (intro ranged_ops) (simp add: abs_le_iff)
  have t2: "num_mul (Num 20) (Num (log 10 f)) = Num (20 * log 10 f)"
    using lf big(1) by (intro ranged_ops) (simp add: abs_le_iff)
  have t3: "num_mul (Num 20) (Num (log 10 K)) = Num (20 * log 10 K)"
    using lK big(1) by (intro ranged_ops) (simp add: abs_le_iff)
  have s1: "num_add (Num (20 * log 10 d)) (Num (20 * log 10 f))
            = Num (20 * log 10 d + 20 * log 10 f)"
    using ld lf big(1) by (intro ranged_ops) (simp add: abs_le_iff)
  have s2: "num_add (Num (20 * log 10 d + 20 * log 10 f)) (Num (20 * log 10 K))
            = Num (20 * log 10 d + 20 * log 10 f + 20 * log 10 K)"
    using ld lf lK big(1) by (intro ranged_ops) (simp add: abs_le_iff)
  have p1: "num_add (Num tp) (Num sgv) = Num (tp + sgv)"
    using g big(2) by (intro ranged_ops) linarith
  have p2: "num_add (Num (tp + sgv)) (Num rgv) = Num (tp + sgv + rgv)"
    using g big(2) by (intro ranged_ops) linarith
  have p3: "num_sub (Num (tp + sgv + rgv)) (Num (20 * log 10 d + 20 * log 10 f + 20 * log 10 K))
            = Num (tp + sgv + rgv - (20 * log 10 d + 20 * log 10 f + 20 * log 10 K))"
    using g ld lf lK big by (intro ranged_ops) linarith
  have p4: "num_add (Num (tp + sgv + rgv - (20 * log 10 d + 20 * log 10 f + 20 * log 10 K)))
                    (Num 30)
            = Num (tp + sgv + rgv - (20 * log 10 d + 20 * log 10 f + 20 * log 10 K) + 30)"
    using g ld lf lK big by (intro ranged_ops) linarith
  have fs: "fspl d f = 20 * log 10 d + 20 * log 10 f + 20 * log 10 K"
    by (simp add: fspl_def K_def FOUR_PI_OVER_C_def SPEED_OF_LIGHT_def)
  show ?thesis
    unfolding calculateSignalStrength_ranged_unfold
    unfolding d_def [symmetric] sgv_def [symmetric] rgv_def [symmetric] K_def [symmetric]
    unfolding dist if_not_P [OF guard] l1 l2 l3 t1 t2 t3 s1 s2 p1 p2 p3 p4 fs ..
qed

lemma log10_frequency: "0 \<le> log 10 (1575420000 :: real)" "log 10 (1575420000 :: real) \<le> 10"
  using log10_bounds [of 0 1575420000 10] by simp_all

lemma log10_FOUR_PI_OVER_C: "- 8 \<le> log 10 FOUR_PI_OVER_C" "log 10 FOUR_PI_OVER_C \<le> 0"
  using log10_bounds [OF FOUR_PI_OVER_C_bounds] by simp_all

lemma FOUR_PI_OVER_C_pos: "0 < FOUR_PI_OVER_C"
  using pi_gt_zero by (simp add: FOUR_PI_OVER_C_def SPEED_OF_LIGHT_def)

lemma calculateDistance_ranged_overflow:
  "calculateDistance_ranged \<lparr>ecef_x = 0, ecef_y = 0, ecef_z = 0\<rparr>
                            \<lparr>ecef_x = 10 ^ 200, ecef_y = 0, ecef_z = 0\<rparr> = PosInf"
  by (simp add: calculateDistance_ranged_def num_sub_def ranged_def OVERFLOW_BOUND_def)

text \<open>
  C7 (the claim fails). Aircraft at the origin, satellite at \<open>x = 1e200\<close>, 20 dBW at
  1575.42 MHz: the square of the difference of the \<open>x\<close> coordinates is beyond the range,
  the distance is \<open>Infinity\<close>, the guard does not apply (the distance is not \<open><= 0\<close>, the
  frequency is positive), the path loss is \<open>Infinity\<close> and the result is \<open>-Infinity\<close>,
  the value of the guard, where the claim says a finite value.
\<close>

theorem calculateSignalStrength_overflow:
  "\<not> num_le (calculateDistance_ranged \<lparr>ecef_x = 0, ecef_y = 0, ecef_z = 0\<rparr>
                                       \<lparr>ecef_x = 10 ^ 200, ecef_y = 0, ecef_z = 0\<rparr>) (Num 0)
   \<and> \<not> (1575420000 :: real) \<le> 0
   \<and> calculateSignalStrength_ranged
        (Some \<lparr>aircraftPosition = Some \<lparr>ecef_x = 0, ecef_y = 0, ecef_z = 0\<rparr>,
               satellitePosition = Some \<lparr>ecef_x = 10 ^ 200, ecef_y = 0, ecef_z = 0\<rparr>,
               transmitterPower = Some 20, frequency = Some 1575420000,
               satelliteAntennaGain = None, aircraftAntennaGain = None\<rparr>)
      = Inr NegInf"
proof -
  have big: "(10 ^ 4 :: real) \<le> 10 ^ 305" by simp
  have l2: "num_log10 (Num 1575420000) = Num (log 10 1575420000)" by simp
  have l3: "num_log10 (Num FOUR_PI_OVER_C) = Num (log 10 FOUR_PI_OVER_C)"
    using FOUR_PI_OVER_C_pos by simp
  have t2: "num_mul (Num 20) (Num (log 10 1575420000)) = Num (20 * log 10 1575420000)"
    using log10_frequency big by (intro ranged_ops) (simp add: abs_le_iff)
  have t3: "num_mul (Num 20) (Num (log 10 FOUR_PI_OVER_C)) = Num (20 * log 10 FOUR_PI_OVER_C)"
    using log10_FOUR_PI_OVER_C big by (intro ranged_ops) (simp add: abs_le_iff)
  have p: "num_add (num_add (Num 20) (Num (gain_or_default None))) (Num (gain_or_default None))
           = Num 20"
    by (simp add: gain_or_default_def ranged_Num)
  show ?thesis
    unfolding calculateSignalStrength_ranged_unfold calculateDistance_ranged_overflow
      l2 l3 t2 t3 p
    by (simp add: num_sub_def)
qed

text \<open>
  C7 (as amended). With all required parameters present the function raises no error.
  Where the computed distance is \<open><= 0\<close> or the frequency is \<open><= 0\<close> it returns
  \<open>-Infinity\<close>. Where coordinates, power and gains are at most \<open>1e150\<close> in magnitude, the
  frequency is between \<open>1e-150\<close> and \<open>1e150\<close> and the distance is at least \<open>1e-150\<close>, it
  returns the finite number of the link budget.
\<close>

theorem calculateSignalStrength_ranged_sentinel:
  "(\<exists>v. calculateSignalStrength_ranged (Some \<lparr>aircraftPosition = Some a,
          satellitePosition = Some s, transmitterPower = Some tp, frequency = Some f,
          satelliteAntennaGain = sg, aircraftAntennaGain = rg\<rparr>) = Inr v)
   \<and> (num_le (calculateDistance_ranged a s) (Num 0) \<or> f \<le> 0 \<longrightarrow>
        calculateSignalStrength_ranged (Some \<lparr>aircraftPosition = Some a,
          satellitePosition = Some s, transmitterPower = Some tp, frequency = Some f,
          satelliteAntennaGain = sg, aircraftAntennaGain = rg\<rparr>) = Inr NegInf)
   \<and> (moderate_link a s tp f sg rg \<longrightarrow>
        calculateSignalStrength_ranged (Some \<lparr>aircraftPosition = Some a,
          satellitePosition = Some s, transmitterPower = Some tp, frequency = Some f,
          satelliteAntennaGain = sg, aircraftAntennaGain = rg\<rparr>)
        = Inr (Num (tp + gain_or_default sg + gain_or_default rg
                    - fspl (euclidean_distance a s) f + 30)))"
proof (intro conjI impI)
  show "\<exists>v. calculateSignalStrength_ranged (Some \<lparr>aircraftPosition = Some a,
          satellitePosition = Some s, transmitterPower = Some tp, frequency = Some f,
          satelliteAntennaGain = sg, aircraftAntennaGain = rg\<rparr>) = Inr v"
    unfolding calculateSignalStrength_ranged_unfold
    by (cases "num_le (calculateDistance_ranged a s) (Num 0) \<or> f \<le> 0")
       (simp_all only: if_True if_False sum.inject simp_thms)
next
  assume "num_le (calculateDistance_ranged a s) (Num 0) \<or> f \<le> 0"
  then show "calculateSignalStrength_ranged (Some \<lparr>aircraftPosition = Some a,
          satellitePosition = Some s, transmitterPower = Some tp, frequency = Some f,
          satelliteAntennaGain = sg, aircraftAntennaGain = rg\<rparr>) = Inr NegInf"
    unfolding calculateSignalStrength_ranged_unfold by (simp only: if_True)
next
  assume "moderate_link a s tp f sg rg"
  then show "calculateSignalStrength_ranged (Some \<lparr>aircraftPosition = Some a,
          satellitePosition = Some s, transmitterPower = Some tp, frequency = Some f,
          satelliteAntennaGain = sg, aircraftAntennaGain = rg\<rparr>)
        = Inr (Num (tp + gain_or_default sg + gain_or_default rg
                    - fspl (euclidean_distance a s) f + 30))"
    by (rule calculateSignalStrength_ranged_moderate)
qed

theorem calculateSignalStrength_ranged_sentinel_witness:
  "num_le (calculateDistance_ranged \<lparr>ecef_x = 0, ecef_y = 0, ecef_z = 6388137\<rparr>
                                    \<lparr>ecef_x = 0, ecef_y = 0, ecef_z = 6388137\<rparr>) (Num 0)
   \<and> calculateSignalStrength_ranged
        (Some \<lparr>aircraftPosition = Some \<lparr>ecef_x = 0, ecef_y = 0, ecef_z = 6388137\<rparr>,
               satellitePosition = Some \<lparr>ecef_x = 0, ecef_y = 0, ecef_z = 6388137\<rparr>,
               transmitterPower = Some 20, frequency = Some 1575420000,
               satelliteAntennaGain = Some 13, aircraftAntennaGain = None\<rparr>)
      = Inr NegInf
   \<and> moderate_link \<lparr>ecef_x = 0, ecef_y = 0, ecef_z = 6388137\<rparr>
                    \<lparr>ecef_x = 0, ecef_y = 0, ecef_z = 26378137\<rparr> 20 1575420000 (Some 13) None
   \<and> calculateSignalStrength_ranged
        (Some \<lparr>aircraftPosition = Some \<lparr>ecef_x = 0, ecef_y = 0, ecef_z = 6388137\<rparr>,
               satellitePosition = Some \<lparr>ecef_x = 0, ecef_y = 0, ecef_z = 26378137\<rparr>,
               transmitterPower = Some 20, frequency = Some 1575420000,
               satelliteAntennaGain = Some 13, aircraftAntennaGain = None\<rparr>)
      = Inr (Num (20 + 13 + 0 - fspl 19990000 1575420000 + 30))"
proof -
  have d0: "calculateDistance_ranged \<lparr>ecef_x = 0, ecef_y = 0, ecef_z = 6388137\<rparr>
                                     \<lparr>ecef_x = 0, ecef_y = 0, ecef_z = 6388137\<rparr> = Num 0"
    by (simp add: calculateDistance_ranged_def num_sub_def ranged_def OVERFLOW_BOUND_def)
  have d: "euclidean_distance \<lparr>ecef_x = 0, ecef_y = 0, ecef_z = 6388137\<rparr>
                              \<lparr>ecef_x = 0, ecef_y = 0, ecef_z = 26378137\<rparr> = 19990000"
    by (simp add: euclidean_distance_def)
  have m: "moderate_link \<lparr>ecef_x = 0, ecef_y = 0, ecef_z = 6388137\<rparr>
                         \<lparr>ecef_x = 0, ecef_y = 0, ecef_z = 26378137\<rparr> 20 1575420000 (Some 13) None"
    by (simp add: moderate_link_def moderate_def d gain_or_default_def)
  have g: "num_le (calculateDistance_ranged \<lparr>ecef_x = 0, ecef_y = 0, ecef_z = 6388137\<rparr>
                     \<lparr>ecef_x = 0, ecef_y = 0, ecef_z = 6388137\<rparr>) (Num 0)"
    by (simp add: d0)
  show ?thesis
    using calculateSignalStrength_ranged_sentinel
            [of "\<lparr>ecef_x = 0, ecef_y = 0, ecef_z = 6388137\<rparr>"
                "\<lparr>ecef_x = 0, ecef_y = 0, ecef_z = 6388137\<rparr>" 20 1575420000 "Some 13" None]
          calculateSignalStrength_ranged_sentinel
            [of "\<lparr>ecef_x = 0, ecef_y = 0, ecef_z = 6388137\<rparr>"
                "\<lparr>ecef_x = 0, ecef_y = 0, ecef_z = 26378137\<rparr>" 20 1575420000 "Some 13" None]
          m g
    by (simp add: d gain_or_default_def)
qed

section \<open>Lookup and validity window of the propagation\<close>

lemma calculateSatellitePosition_checked:
  assumes "sid \<noteq> []" "findSatellite rd sid = Some sd" "orbitalParameters sd = Some orb"
  shows "calculateSatellitePosition
           (Some \<lparr>rinexData = Some rd, satelliteId = Some sid, timestamp = Some t\<rparr>)
         = (if outsideValidity sd t then Inl OutOfValidityRange else Inr (propagate orb t))"
  using assms by (simp add: calculateSatellitePosition_def)

lemma findSatellite_None_iff:
  "findSatellite rd sid = None \<longleftrightarrow>
     (case satellites rd of None \<Rightarrow> True | Some sats \<Rightarrow> sid \<notin> sat_id ` set sats)"
  by (auto simp: findSatellite_def find_None_iff split: option.splits)

lemma findSatellite_example:
  "findSatellite exampleRinexData ''G01'' = Some entryWithIdOnly"
  "findSatellite exampleRinexData ''B01'' = Some standardExampleEntry"
  "findSatellite exampleRinexData ''B02'' = Some entryWithoutWindow"
  "findSatellite exampleRinexData ''B03'' = None"
  by (simp_all add: findSatellite_def exampleRinexData_def entryWithIdOnly_def
      standardExampleEntry_def entryWithoutWindow_def)

text \<open>
  C4. For a call whose parameters are present (an empty id counts as absent), whose
  satellite is found with its orbital parameters, and whose entry has a window from
  \<open>validFrom\<close> to \<open>validTo\<close> with \<open>validFrom \<le> validTo\<close>: propagation at \<open>validFrom\<close> and at
  \<open>validTo\<close> returns the propagated position, and at \<open>validTo\<close> plus one second (1000 ms)
  it fails with the out-of-validity-range error.
\<close>

theorem validity_window_bounds:
  assumes "sid \<noteq> []"
    and "findSatellite rd sid = Some sd"
    and "orbitalParameters sd = Some orb"
    and "timeParameters sd = Some \<lparr>validFrom = Some vf, validTo = Some vt\<rparr>"
    and "vf \<le> vt"
  shows "calculateSatellitePosition
           (Some \<lparr>rinexData = Some rd, satelliteId = Some sid, timestamp = Some vf\<rparr>)
           = Inr (propagate orb vf)
       \<and> calculateSatellitePosition
           (Some \<lparr>rinexData = Some rd, satelliteId = Some sid, timestamp = Some vt\<rparr>)
           = Inr (propagate orb vt)
       \<and> calculateSatellitePosition
           (Some \<lparr>rinexData = Some rd, satelliteId = Some sid, timestamp = Some (vt + 1000)\<rparr>)
           = Inl OutOfValidityRange"
  using assms
  by (simp add: calculateSatellitePosition_checked outsideValidity_def)

theorem validity_window_bounds_witness:
  "''B01'' \<noteq> []
   \<and> findSatellite exampleRinexData ''B01'' = Some standardExampleEntry
   \<and> orbitalParameters standardExampleEntry = Some standardExampleElements
   \<and> timeParameters standardExampleEntry
       = Some \<lparr>validFrom = Some 1735689600000, validTo = Some 1735704000000\<rparr>
   \<and> (1735689600000::int) \<le> 1735704000000
   \<and> calculateSatellitePosition
       (Some \<lparr>rinexData = Some exampleRinexData, satelliteId = Some ''B01'',
              timestamp = Some 1735689600000\<rparr>)
       = Inr (propagate standardExampleElements 1735689600000)
   \<and> calculateSatellitePosition
       (Some \<lparr>rinexData = Some exampleRinexData, satelliteId = Some ''B01'',
              timestamp = Some 1735704000000\<rparr>)
       = Inr (propagate standardExampleElements 1735704000000)
   \<and> calculateSatellitePosition
       (Some \<lparr>rinexData = Some exampleRinexData, satelliteId = Some ''B01'',
              timestamp = Some 1735704001000\<rparr>)
       = Inl OutOfValidityRange"
proof -
  have entry: "orbitalParameters standardExampleEntry = Some standardExampleElements"
    "timeParameters standardExampleEntry
       = Some \<lparr>validFrom = Some 1735689600000, validTo = Some 1735704000000\<rparr>"
    by (simp_all add: standardExampleEntry_def)
  show ?thesis
    using validity_window_bounds [of "''B01''" exampleRinexData standardExampleEntry
            standardExampleElements 1735689600000 1735704000000]
    by (simp add: entry findSatellite_example)
qed

text \<open>
  C9. For a call whose parameters are present (an empty id counts as absent): an id with
  no entry in the ephemeris data (no list of satellites, or no entry of the list with
  that id) fails with the not-found error, and an id whose entry has no orbital
  parameters fails with the error for missing orbital parameters. Both versions of the
  module do so, and an error is no position.
\<close>

theorem missing_satellite_data_errors:
  assumes "sid \<noteq> []"
  shows "(findSatellite rd sid = None \<longleftrightarrow>
            (case satellites rd of None \<Rightarrow> True | Some sats \<Rightarrow> sid \<notin> sat_id ` set sats))
       \<and> (findSatellite rd sid = None \<longrightarrow>
            calculateSatellitePosition
              (Some \<lparr>rinexData = Some rd, satelliteId = Some sid, timestamp = Some t\<rparr>)
              = Inl (SatelliteNotFound sid)
            \<and> calculateSatellitePosition_placeholder
              (Some \<lparr>rinexData = Some rd, satelliteId = Some sid, timestamp = Some t\<rparr>)
              = Inl (SatelliteNotFound sid))
       \<and> (\<forall>sd. findSatellite rd sid = Some sd \<and> orbitalParameters sd = None \<longrightarrow>
            calculateSatellitePosition
              (Some \<lparr>rinexData = Some rd, satelliteId = Some sid, timestamp = Some t\<rparr>)
              = Inl (MissingOrbitalParameters sid)
            \<and> calculateSatellitePosition_placeholder
              (Some \<lparr>rinexData = Some rd, satelliteId = Some sid, timestamp = Some t\<rparr>)
              = Inl (MissingOrbitalParameters sid))"
proof (intro conjI impI allI)
  show "findSatellite rd sid = None \<longleftrightarrow>
            (case satellites rd of None \<Rightarrow> True | Some sats \<Rightarrow> sid \<notin> sat_id ` set sats)"
    by (rule findSatellite_None_iff)
next
  assume "findSatellite rd sid = None"
  then show "calculateSatellitePosition
              (Some \<lparr>rinexData = Some rd, satelliteId = Some sid, timestamp = Some t\<rparr>)
              = Inl (SatelliteNotFound sid)"
    and "calculateSatellitePosition_placeholder
              (Some \<lparr>rinexData = Some rd, satelliteId = Some sid, timestamp = Some t\<rparr>)
              = Inl (SatelliteNotFound sid)"
    using assms
    by (simp_all add: calculateSatellitePosition_def calculateSatellitePosition_placeholder_def)
next
  fix sd
  assume "findSatellite rd sid = Some sd \<and> orbitalParameters sd = None"
  then show "calculateSatellitePosition
              (Some \<lparr>rinexData = Some rd, satelliteId = Some sid, timestamp = Some t\<rparr>)
              = Inl (MissingOrbitalParameters sid)"
    and "calculateSatellitePosition_placeholder
              (Some \<lparr>rinexData = Some rd, satelliteId = Some sid, timestamp = Some t\<rparr>)
              = Inl (MissingOrbitalParameters sid)"
    using assms
    by (simp_all add: calculateSatellitePosition_def calculateSatellitePosition_placeholder_def)
qed

theorem missing_satellite_data_errors_witness:
  "''B03'' \<noteq> [] \<and> findSatellite exampleRinexData ''B03'' = None
   \<and> calculateSatellitePosition
       (Some \<lparr>rinexData = Some exampleRinexData, satelliteId = Some ''B03'',
              timestamp = Some 1735693200000\<rparr>) = Inl (SatelliteNotFound ''B03'')
   \<and> calculateSatellitePosition_placeholder
       (Some \<lparr>rinexData = Some exampleRinexData, satelliteId = Some ''B03'',
              timestamp = Some 1735693200000\<rparr>) = Inl (SatelliteNotFound ''B03'')
   \<and> ''G01'' \<noteq> [] \<and> findSatellite exampleRinexData ''G01'' = Some entryWithIdOnly
   \<and> orbitalParameters entryWithIdOnly = None
   \<and> calculateSatellitePosition
       (Some \<lparr>rinexData = Some exampleRinexData, satelliteId = Some ''G01'',
              timestamp = Some 1735693200000\<rparr>) = Inl (MissingOrbitalParameters ''G01'')
   \<and> calculateSatellitePosition_placeholder
       (Some \<lparr>rinexData = Some exampleRinexData, satelliteId = Some ''G01'',
              timestamp = Some 1735693200000\<rparr>) = Inl (MissingOrbitalParameters ''G01'')"
proof -
  have none: "orbitalParameters entryWithIdOnly = None"
    by (simp add: entryWithIdOnly_def)
  show ?thesis
    using missing_satellite_data_errors [of "''B03''" exampleRinexData 1735693200000]
          missing_satellite_data_errors [of "''G01''" exampleRinexData 1735693200000]
    by (simp add: findSatellite_example none)
qed

text \<open>
  C10. For a call whose parameters are present and whose satellite is found with its
  orbital parameters: if the entry has no \<open>timeParameters\<close>, or its \<open>validFrom\<close> or its
  \<open>validTo\<close> is absent, no validity test is made and the propagated position is returned
  for every timestamp.
\<close>

theorem no_validity_check_without_window:
  assumes "sid \<noteq> []"
    and "findSatellite rd sid = Some sd"
    and "orbitalParameters sd = Some orb"
    and "timeParameters sd = None
         \<or> (\<exists>tp. timeParameters sd = Some tp \<and> (validFrom tp = None \<or> validTo tp = None))"
  shows "\<forall>t. \<not> outsideValidity sd t
           \<and> calculateSatellitePosition
               (Some \<lparr>rinexData = Some rd, satelliteId = Some sid, timestamp = Some t\<rparr>)
               = Inr (propagate orb t)"
proof
  fix t
  from assms(4) have "\<not> outsideValidity sd t"
    by (auto simp: outsideValidity_def split: option.splits)
  then show "\<not> outsideValidity sd t
           \<and> calculateSatellitePosition
               (Some \<lparr>rinexData = Some rd, satelliteId = Some sid, timestamp = Some t\<rparr>)
               = Inr (propagate orb t)"
    using assms(1-3) by (simp add: calculateSatellitePosition_checked)
qed

theorem no_validity_check_without_window_witness:
  "''B02'' \<noteq> [] \<and> findSatellite exampleRinexData ''B02'' = Some entryWithoutWindow
   \<and> orbitalParameters entryWithoutWindow = Some standardExampleElements
   \<and> timeParameters entryWithoutWindow
       = Some \<lparr>validFrom = Some 1735689600000, validTo = None\<rparr>
   \<and> calculateSatellitePosition
       (Some \<lparr>rinexData = Some exampleRinexData, satelliteId = Some ''B02'',
              timestamp = Some 0\<rparr>) = Inr (propagate standardExampleElements 0)
   \<and> calculateSatellitePosition
       (Some \<lparr>rinexData = Some exampleRinexData, satelliteId = Some ''B02'',
              timestamp = Some 4102444800000\<rparr>)
       = Inr (propagate standardExampleElements 4102444800000)"
proof -
  have entry: "orbitalParameters entryWithoutWindow = Some standardExampleElements"
    "timeParameters entryWithoutWindow
       = Some \<lparr>validFrom = Some 1735689600000, validTo = None\<rparr>"
    by (simp_all add: entryWithoutWindow_def)
  have "\<forall>t. \<not> outsideValidity entryWithoutWindow t
           \<and> calculateSatellitePosition
               (Some \<lparr>rinexData = Some exampleRinexData, satelliteId = Some ''B02'',
                      timestamp = Some t\<rparr>)
               = Inr (propagate standardExampleElements t)"
    by (rule no_validity_check_without_window
          [of "''B02''" exampleRinexData entryWithoutWindow standardExampleElements])
       (simp_all add: entry findSatellite_example)
  then show ?thesis
    by (simp add: entry findSatellite_example)
qed

section \<open>The Newton-Raphson loop\<close>

text \<open>Elementary bounds on sine, cosine and arctangent.\<close>

lemma one_minus_cos_le:
  fixes h :: real
  shows "1 - cos h \<le> h\<^sup>2 / 2"
proof -
  have "cos h = 1 - 2 * (sin (h / 2))\<^sup>2"
    using cos_double_sin [of "h / 2"] by simp
  moreover have "(sin (h / 2))\<^sup>2 \<le> (h / 2)\<^sup>2"
    using abs_sin_x_le_abs_x [of "h / 2"] by (simp add: abs_le_square_iff [symmetric])
  ultimately show ?thesis by (simp add: power2_eq_square)
qed

lemma sin_cubic_bound:
  fixes h :: real
  shows "\<bar>sin h - h\<bar> \<le> \<bar>h\<bar> ^ 3 / 6"
proof -
  have "(\<Sum>m<3. sin_coeff m * h ^ m) = h"
    by (simp add: sin_coeff_def eval_nat_numeral)
  then show ?thesis
    using Maclaurin_sin_bound [of h 3] by (simp add: fact_numeral)
qed

lemma sin_second_order:
  fixes x h :: real
  assumes "\<bar>h\<bar> \<le> 1"
  shows "\<bar>sin (x + h) - sin x - h * cos x\<bar> \<le> h\<^sup>2"
proof -
  have split: "sin (x + h) - sin x - h * cos x = sin x * (cos h - 1) + cos x * (sin h - h)"
    by (simp add: sin_add algebra_simps)
  have c: "\<bar>cos h - 1\<bar> \<le> h\<^sup>2 / 2"
    using one_minus_cos_le [of h] cos_le_one [of h] by simp
  have "\<bar>h\<bar> ^ 3 \<le> \<bar>h\<bar> ^ 2"
    using assms by (intro power_decreasing) simp_all
  then have "\<bar>h\<bar> ^ 3 \<le> h\<^sup>2" by simp
  moreover have "0 \<le> h\<^sup>2" by simp
  ultimately have s: "\<bar>sin h - h\<bar> \<le> h\<^sup>2 / 2"
    using sin_cubic_bound [of h] by linarith
  have "\<bar>sin x * (cos h - 1)\<bar> \<le> 1 * (h\<^sup>2 / 2)"
    unfolding abs_mult by (intro mult_mono c) simp_all
  moreover have "\<bar>cos x * (sin h - h)\<bar> \<le> 1 * (h\<^sup>2 / 2)"
    unfolding abs_mult by (intro mult_mono s) simp_all
  ultimately show ?thesis unfolding split by linarith
qed

lemma arctan_le_self:
  fixes x :: real
  assumes "0 \<le> x"
  shows "arctan x \<le> x"
proof -
  have "(\<lambda>u. u - arctan u) 0 \<le> (\<lambda>u. u - arctan u) x"
  proof (rule DERIV_nonneg_imp_nondecreasing [OF assms])
    fix u :: real
    have "((\<lambda>u. u - arctan u) has_real_derivative 1 - inverse (1 + u\<^sup>2)) (at u)"
      by (auto intro!: derivative_eq_intros)
    moreover have "0 \<le> 1 - inverse (1 + u\<^sup>2)"
      by (simp add: inverse_le_1_iff)
    ultimately show "\<exists>y. ((\<lambda>u. u - arctan u) has_real_derivative y) (at u) \<and> 0 \<le> y"
      by blast
  qed
  then show ?thesis by simp
qed

lemma sin_quintic_bound:
  fixes h :: real
  shows "\<bar>sin h - (h - h ^ 3 / 6)\<bar> \<le> \<bar>h\<bar> ^ 5 / 120"
proof -
  have "(\<Sum>m<5. sin_coeff m * h ^ m) = h - h ^ 3 / 6"
    by (simp add: sin_coeff_Suc cos_coeff_Suc eval_nat_numeral)
  then show ?thesis
    using Maclaurin_sin_bound [of h 5] by (simp add: fact_numeral)
qed

lemma sin_quarter: "sin (1/4 :: real) \<le> 2475 / 10000" "2473 / 10000 \<le> sin (1/4 :: real)"
proof -
  have "\<bar>sin (1/4 :: real) - (1/4 - (1/4) ^ 3 / 6)\<bar> \<le> \<bar>1/4\<bar> ^ 5 / 120"
    by (rule sin_quintic_bound)
  then have b: "\<bar>sin (1/4 :: real) - 95 / 384\<bar> \<le> 1 / 122880"
    by (simp add: power_divide)
  from b show "sin (1/4 :: real) \<le> 2475 / 10000" by linarith
  from b show "2473 / 10000 \<le> sin (1/4 :: real)" by linarith
qed

lemma sin_eighth: "1245 / 10000 \<le> sin (1/8 :: real)"
proof -
  have "\<bar>sin (1/8 :: real) - (1/8 - (1/8) ^ 3 / 6)\<bar> \<le> \<bar>1/8\<bar> ^ 5 / 120"
    by (rule sin_quintic_bound)
  then have b: "\<bar>sin (1/8 :: real) - 383 / 3072\<bar> \<le> 1 / 3932160"
    by (simp add: power_divide)
  from b show ?thesis by linarith
qed

lemma cos_quarter: "31 / 32 \<le> cos (1/4 :: real)" "cos (1/4 :: real) \<le> 97 / 100"
proof -
  show "31 / 32 \<le> cos (1/4 :: real)"
    using one_minus_cos_le [of "1/4"] by (simp add: power_divide)
  have "(1245 / 10000)\<^sup>2 \<le> (sin (1/8 :: real))\<^sup>2"
    using sin_eighth by (intro power_mono) simp_all
  moreover have "cos (1/4 :: real) = 1 - 2 * (sin (1/8))\<^sup>2"
    using cos_double_sin [of "1/8 :: real"] by simp
  ultimately show "cos (1/4 :: real) \<le> 97 / 100"
    by (simp add: power_divide)
qed

text \<open>
  Sine and cosine of a given number to a given accuracy: a Taylor polynomial at a small
  argument, then the double-angle formulas.
\<close>

lemma sin_septic_bound:
  fixes h :: real
  shows "\<bar>sin h - (h - h ^ 3 / 6 + h ^ 5 / 120 - h ^ 7 / 5040)\<bar> \<le> \<bar>h\<bar> ^ 9 / 362880"
proof -
  have "(\<Sum>m<9. sin_coeff m * h ^ m) = h - h ^ 3 / 6 + h ^ 5 / 120 - h ^ 7 / 5040"
    by (simp add: sin_coeff_Suc cos_coeff_Suc eval_nat_numeral)
  then show ?thesis
    using Maclaurin_sin_bound [of h 9] by (simp add: fact_numeral)
qed

lemma cos_from_half_sin:
  fixes h s0 c0 d r :: real
  assumes s: "\<bar>sin (h / 2) - s0\<bar> \<le> d" and s0: "\<bar>s0\<bar> \<le> 1"
    and c0: "\<bar>1 - 2 * (s0 * s0) - c0\<bar> \<le> r"
  shows "\<bar>cos h - c0\<bar> \<le> 4 * d + r"
proof -
  define s where "s = sin (h / 2)"
  have c: "cos h = 1 - 2 * (s * s)"
    using cos_double_sin [of "h / 2"] by (simp add: s_def power2_eq_square)
  have s1: "\<bar>s\<bar> \<le> 1" by (simp add: s_def)
  have "\<bar>s * s - s0 * s0\<bar> = \<bar>s - s0\<bar> * \<bar>s + s0\<bar>"
    by (simp add: abs_mult [symmetric] algebra_simps)
  also have "\<dots> \<le> d * 2"
  proof (rule mult_mono)
    show "\<bar>s - s0\<bar> \<le> d" using s by (simp add: s_def)
    show "\<bar>s + s0\<bar> \<le> 2" using s1 s0 by linarith
    show "0 \<le> d" using s by linarith
    show "0 \<le> \<bar>s + s0\<bar>" by simp
  qed
  finally have "\<bar>s * s - s0 * s0\<bar> \<le> 2 * d" by simp
  then show ?thesis using c0 unfolding c by linarith
qed

lemma double_angle_approx:
  fixes t s0 c0 s1 c1 d r :: real
  assumes s: "\<bar>sin t - s0\<bar> \<le> d" and c: "\<bar>cos t - c0\<bar> \<le> d"
    and s0: "\<bar>s0\<bar> \<le> 1" and c0: "\<bar>c0\<bar> \<le> 1"
    and s1: "\<bar>2 * (s0 * c0) - s1\<bar> \<le> r" and c1: "\<bar>c0 * c0 - s0 * s0 - c1\<bar> \<le> r"
  shows "\<bar>sin (2 * t) - s1\<bar> \<le> 4 * d + r" and "\<bar>cos (2 * t) - c1\<bar> \<le> 4 * d + r"
proof -
  define u where "u = sin t"
  define v where "v = cos t"
  have d0: "0 \<le> d" using s by linarith
  have u1: "\<bar>u\<bar> \<le> 1" and v1: "\<bar>v\<bar> \<le> 1" by (simp_all add: u_def v_def)
  have us: "\<bar>u - s0\<bar> \<le> d" and vc: "\<bar>v - c0\<bar> \<le> d" using s c by (simp_all add: u_def v_def)
  have sd: "sin (2 * t) = 2 * (u * v)" by (simp add: sin_double u_def v_def)
  have cd: "cos (2 * t) = v * v - u * u"
    by (simp add: cos_double u_def v_def power2_eq_square)
  have a1: "\<bar>(u - s0) * v\<bar> \<le> d * 1"
    unfolding abs_mult by (intro mult_mono us v1 d0) simp
  have a2: "\<bar>s0 * (v - c0)\<bar> \<le> 1 * d"
    unfolding abs_mult by (intro mult_mono vc s0) simp_all
  have "u * v - s0 * c0 = (u - s0) * v + s0 * (v - c0)" by (simp add: algebra_simps)
  then have "\<bar>u * v - s0 * c0\<bar> \<le> 2 * d" using a1 a2 by linarith
  then show "\<bar>sin (2 * t) - s1\<bar> \<le> 4 * d + r" using s1 unfolding sd by linarith
  have b1: "\<bar>(v - c0) * (v + c0)\<bar> \<le> d * 2"
    unfolding abs_mult
  proof (rule mult_mono)
    show "\<bar>v - c0\<bar> \<le> d" by (rule vc)
    show "\<bar>v + c0\<bar> \<le> 2" using v1 c0 by linarith
  qed (use d0 in simp_all)
  have b2: "\<bar>(u - s0) * (u + s0)\<bar> \<le> d * 2"
    unfolding abs_mult
  proof (rule mult_mono)
    show "\<bar>u - s0\<bar> \<le> d" by (rule us)
    show "\<bar>u + s0\<bar> \<le> 2" using u1 s0 by linarith
  qed (use d0 in simp_all)
  have "v * v - u * u - (c0 * c0 - s0 * s0) = (v - c0) * (v + c0) - (u - s0) * (u + s0)"
    by (simp add: algebra_simps)
  then have "\<bar>v * v - u * u - (c0 * c0 - s0 * s0)\<bar> \<le> 4 * d" using b1 b2 by linarith
  then show "\<bar>cos (2 * t) - c1\<bar> \<le> 4 * d + r" using c1 unfolding cd by linarith
qed

lemma sin_lipschitz:
  fixes a b :: real
  shows "\<bar>sin a - sin b\<bar> \<le> \<bar>a - b\<bar>"
proof -
  have "sin a - sin b = 2 * sin ((a - b) / 2) * cos ((a + b) / 2)" by (rule sin_diff_sin)
  then have "\<bar>sin a - sin b\<bar> = 2 * (\<bar>sin ((a - b) / 2)\<bar> * \<bar>cos ((a + b) / 2)\<bar>)"
    by (simp add: abs_mult)
  also have "\<bar>sin ((a - b) / 2)\<bar> * \<bar>cos ((a + b) / 2)\<bar> \<le> \<bar>(a - b) / 2\<bar> * 1"
    by (intro mult_mono abs_sin_x_le_abs_x) simp_all
  finally show ?thesis by simp
qed

lemma cos_lipschitz:
  fixes a b :: real
  shows "\<bar>cos a - cos b\<bar> \<le> \<bar>a - b\<bar>"
proof -
  have "cos a - cos b = 2 * sin ((a + b) / 2) * sin ((b - a) / 2)" by (rule cos_diff_cos)
  then have "\<bar>cos a - cos b\<bar> = 2 * (\<bar>sin ((a + b) / 2)\<bar> * \<bar>sin ((b - a) / 2)\<bar>)"
    by (simp add: abs_mult)
  also have "\<bar>sin ((a + b) / 2)\<bar> * \<bar>sin ((b - a) / 2)\<bar> \<le> 1 * \<bar>(b - a) / 2\<bar>"
    by (intro mult_mono abs_sin_x_le_abs_x) simp_all
  finally show ?thesis by simp
qed

lemma sin_septic_approx:
  fixes h a d :: real
  assumes "\<bar>h - h ^ 3 / 6 + h ^ 5 / 120 - h ^ 7 / 5040 - a\<bar> + \<bar>h\<bar> ^ 9 / 362880 \<le> d"
  shows "\<bar>sin h - a\<bar> \<le> d"
  using sin_septic_bound [of h] assms by linarith

lemma cos_half_approx:
  fixes h s0 c0 d r d' :: real
  assumes "\<bar>sin (h / 2) - s0\<bar> \<le> d" and "\<bar>s0\<bar> \<le> 1"
    and "\<bar>1 - 2 * (s0 * s0) - c0\<bar> \<le> r" and "4 * d + r \<le> d'"
  shows "\<bar>cos h - c0\<bar> \<le> d'"
  using cos_from_half_sin [OF assms(1-3)] assms(4) by linarith

lemma double_approx:
  fixes t sa ca sb cb d r dd :: real
  assumes "\<bar>sin t - sa\<bar> \<le> d" and "\<bar>cos t - ca\<bar> \<le> d"
    and "\<bar>sa\<bar> \<le> 1" and "\<bar>ca\<bar> \<le> 1"
    and "\<bar>2 * (sa * ca) - sb\<bar> \<le> r" and "\<bar>ca * ca - sa * sa - cb\<bar> \<le> r"
    and "4 * d + r \<le> dd"
  shows "\<bar>sin (2 * t) - sb\<bar> \<le> dd" and "\<bar>cos (2 * t) - cb\<bar> \<le> dd"
  using double_angle_approx [OF assms(1-6)] assms(7) by linarith+

lemma sin_minus_arc_cos:
  fixes E w :: real
  assumes "\<bar>E\<bar> \<le> w"
  shows "\<bar>sin E - E * cos E\<bar> \<le> w ^ 3"
proof -
  have a: "\<bar>sin E - E\<bar> \<le> \<bar>E\<bar> ^ 3 / 6" by (rule sin_cubic_bound)
  have "0 \<le> 1 - cos E" by simp
  then have "\<bar>E * (1 - cos E)\<bar> = \<bar>E\<bar> * (1 - cos E)" by (simp add: abs_mult)
  also have "\<dots> \<le> \<bar>E\<bar> * (E\<^sup>2 / 2)"
    by (intro mult_left_mono one_minus_cos_le) simp
  also have "\<dots> = \<bar>E\<bar> ^ 3 / 2" by (simp add: power3_eq_cube power2_eq_square abs_mult_self_eq)
  finally have b: "\<bar>E * (1 - cos E)\<bar> \<le> \<bar>E\<bar> ^ 3 / 2" .
  have "sin E - E * cos E = (sin E - E) + E * (1 - cos E)" by (simp add: algebra_simps)
  then have "\<bar>sin E - E * cos E\<bar> \<le> \<bar>E\<bar> ^ 3 / 6 + \<bar>E\<bar> ^ 3 / 2" using a b by linarith
  moreover have "0 \<le> \<bar>E\<bar> ^ 3" by simp
  ultimately have "\<bar>sin E - E * cos E\<bar> \<le> \<bar>E\<bar> ^ 3" by linarith
  also have "\<bar>E\<bar> ^ 3 \<le> w ^ 3" using assms by (intro power_mono) simp_all
  finally show ?thesis .
qed

lemma newtonStep_numerator:
  assumes "1 - e * cos E \<noteq> 0"
  shows "newtonStep e M E * (1 - e * cos E) = M + e * sin E - e * (E * cos E)"
  using assms by (simp add: newtonStep_def field_simps)

lemma denominator_pos:
  fixes e E :: real
  assumes "0 \<le> e" "e < 1"
  shows "0 < 1 - e * cos E"
proof -
  have "e * cos E \<le> e * 1" using assms by (intro mult_left_mono) simp_all
  then show ?thesis using assms by simp
qed

lemma quotient_between:
  fixes N D l u :: real
  assumes "0 < D" "l * D \<le> N * D" "N * D \<le> u * D"
  shows "l \<le> N" "N \<le> u"
  using assms by simp_all

lemma affine_bounds:
  fixes S C P s0 c0 ds dc dp k a b g :: real
  assumes S: "\<bar>S - s0\<bar> \<le> ds" and C: "\<bar>C - c0\<bar> \<le> dc" and P: "\<bar>P\<bar> \<le> dp"
  shows "k + a * s0 + b * c0 - (\<bar>a\<bar> * ds + \<bar>b\<bar> * dc + \<bar>g\<bar> * dp) \<le> k + a * S + b * C + g * P"
    and "k + a * S + b * C + g * P \<le> k + a * s0 + b * c0 + (\<bar>a\<bar> * ds + \<bar>b\<bar> * dc + \<bar>g\<bar> * dp)"
proof -
  have a: "\<bar>a * (S - s0)\<bar> \<le> \<bar>a\<bar> * ds"
    unfolding abs_mult by (intro mult_left_mono S) simp
  have b: "\<bar>b * (C - c0)\<bar> \<le> \<bar>b\<bar> * dc"
    unfolding abs_mult by (intro mult_left_mono C) simp
  have g: "\<bar>g * P\<bar> \<le> \<bar>g\<bar> * dp"
    unfolding abs_mult by (intro mult_left_mono P) simp
  have eq: "k + a * S + b * C + g * P
      = k + a * s0 + b * c0 + (a * (S - s0) + b * (C - c0) + g * P)"
    by (simp add: algebra_simps)
  show "k + a * s0 + b * c0 - (\<bar>a\<bar> * ds + \<bar>b\<bar> * dc + \<bar>g\<bar> * dp) \<le> k + a * S + b * C + g * P"
    unfolding eq using a b g by linarith
  show "k + a * S + b * C + g * P \<le> k + a * s0 + b * c0 + (\<bar>a\<bar> * ds + \<bar>b\<bar> * dc + \<bar>g\<bar> * dp)"
    unfolding eq using a b g by linarith
qed

text \<open>
  The Newton step at a point within \<open>r\<close> of \<open>c\<close>, where sine and cosine of \<open>c\<close> are
  known to within \<open>d\<close>: the step lies between \<open>l\<close> and \<open>u\<close> if two inequalities between
  numbers hold.
\<close>

lemma newtonStep_between:
  fixes e M E c r s0 c0 d l u :: real
  assumes e: "0 \<le> e" "e < 1"
    and E: "\<bar>E - c\<bar> \<le> r"
    and s: "\<bar>sin c - s0\<bar> \<le> d" and c: "\<bar>cos c - c0\<bar> \<le> d"
    and lo: "0 \<le> (M - l) + e * s0 + (l * e - e * c) * c0
                  - (\<bar>e\<bar> * (d + r) + \<bar>l * e - e * c\<bar> * (d + r) + \<bar>- e\<bar> * r)"
    and hi: "(M - u) + e * s0 + (u * e - e * c) * c0
                  + (\<bar>e\<bar> * (d + r) + \<bar>u * e - e * c\<bar> * (d + r) + \<bar>- e\<bar> * r) \<le> 0"
  shows "l \<le> newtonStep e M E" and "newtonStep e M E \<le> u"
proof -
  define S where "S = sin E"
  define C where "C = cos E"
  define P where "P = (E - c) * C"
  define N where "N = newtonStep e M E"
  have r0: "0 \<le> r" using E by linarith
  have S: "\<bar>S - s0\<bar> \<le> d + r"
    using sin_lipschitz [of E c] s E unfolding S_def by linarith
  have C: "\<bar>C - c0\<bar> \<le> d + r"
    using cos_lipschitz [of E c] c E unfolding C_def by linarith
  have "\<bar>P\<bar> = \<bar>E - c\<bar> * \<bar>C\<bar>" by (simp add: P_def abs_mult)
  also have "\<dots> \<le> r * 1"
    by (intro mult_mono E r0) (simp_all add: C_def)
  finally have P: "\<bar>P\<bar> \<le> r" by simp
  have D: "0 < 1 - e * C"
    unfolding C_def using e by (rule denominator_pos)
  then have "1 - e * cos E \<noteq> 0" by (simp add: C_def)
  then have "newtonStep e M E * (1 - e * cos E) = M + e * sin E - e * (E * cos E)"
    by (rule newtonStep_numerator)
  then have T: "N * (1 - e * C) = M + e * S - e * (E * C)"
    by (simp add: N_def S_def C_def)
  have EC: "E * C = c * C + P" by (simp add: P_def algebra_simps)
  have "0 \<le> (M - l) + e * S + (l * e - e * c) * C + (- e) * P"
    using affine_bounds(1) [OF S C P, of "M - l" e "l * e - e * c" "- e"] lo by linarith
  also have "\<dots> = N * (1 - e * C) - l * (1 - e * C)"
    unfolding T EC by (simp add: algebra_simps)
  finally have lo': "l * (1 - e * C) \<le> N * (1 - e * C)" by simp
  have "N * (1 - e * C) - u * (1 - e * C) = (M - u) + e * S + (u * e - e * c) * C + (- e) * P"
    unfolding T EC by (simp add: algebra_simps)
  also have "\<dots> \<le> 0"
    using affine_bounds(2) [OF S C P, of "M - u" e "u * e - e * c" "- e"] hi by linarith
  finally have hi': "N * (1 - e * C) \<le> u * (1 - e * C)" by simp
  show "l \<le> newtonStep e M E" using quotient_between(1) [OF D lo' hi'] by (simp add: N_def)
  show "newtonStep e M E \<le> u" using quotient_between(2) [OF D lo' hi'] by (simp add: N_def)
qed

text \<open>The Newton step at a point within \<open>w\<close> of zero.\<close>

lemma newtonStep_near_zero:
  fixes e M E w l u :: real
  assumes e: "0 \<le> e" "e < 1"
    and E: "\<bar>E\<bar> \<le> w"
    and l: "0 \<le> l" and u: "0 \<le> u"
    and lo: "0 \<le> M - l - e * w ^ 3 + l * e * (1 - w\<^sup>2 / 2)"
    and hi: "M - u + e * w ^ 3 + u * e \<le> 0"
  shows "l \<le> newtonStep e M E" and "newtonStep e M E \<le> u"
proof -
  define G where "G = sin E - E * cos E"
  define C where "C = cos E"
  define N where "N = newtonStep e M E"
  have G: "\<bar>G\<bar> \<le> w ^ 3" unfolding G_def by (rule sin_minus_arc_cos [OF E])
  have "E\<^sup>2 \<le> w\<^sup>2"
    using E by (simp add: abs_le_square_iff [symmetric])
  then have C1: "1 - w\<^sup>2 / 2 \<le> C"
    using one_minus_cos_le [of E] unfolding C_def by linarith
  have C2: "C \<le> 1" by (simp add: C_def)
  have D: "0 < 1 - e * C"
    unfolding C_def using e by (rule denominator_pos)
  then have "1 - e * cos E \<noteq> 0" by (simp add: C_def)
  then have "newtonStep e M E * (1 - e * cos E) = M + e * sin E - e * (E * cos E)"
    by (rule newtonStep_numerator)
  then have T: "N * (1 - e * C) = M + e * G"
    by (simp add: N_def G_def C_def algebra_simps)
  have eG: "\<bar>e * G\<bar> \<le> e * w ^ 3"
    unfolding abs_mult using e G by (intro mult_mono) simp_all
  have leC: "(l * e) * (1 - w\<^sup>2 / 2) \<le> (l * e) * C"
    using l e by (intro mult_left_mono C1) simp
  have ueC: "(u * e) * C \<le> (u * e) * 1"
    using u e by (intro mult_left_mono C2) simp
  have "N * (1 - e * C) - l * (1 - e * C) = M + e * G - l + (l * e) * C"
    unfolding T by (simp add: algebra_simps)
  then have "0 \<le> N * (1 - e * C) - l * (1 - e * C)"
    using lo eG leC by linarith
  then have lo': "l * (1 - e * C) \<le> N * (1 - e * C)" by simp
  have "N * (1 - e * C) - u * (1 - e * C) = M + e * G - u + (u * e) * C"
    unfolding T by (simp add: algebra_simps)
  then have "N * (1 - e * C) - u * (1 - e * C) \<le> 0"
    using hi eG ueC by linarith
  then have hi': "N * (1 - e * C) \<le> u * (1 - e * C)" by simp
  show "l \<le> newtonStep e M E" using quotient_between(1) [OF D lo' hi'] by (simp add: N_def)
  show "newtonStep e M E \<le> u" using quotient_between(2) [OF D lo' hi'] by (simp add: N_def)
qed

text \<open>
  One Newton step leaves a residual of second order: with \<open>h\<close> the step, the residual at
  the new iterate is \<open>- e (sin (E + h) - sin E - h cos E)\<close>.
\<close>

lemma newton_residual_sq:
  fixes e M Ep Ek :: real
  assumes e: "0 \<le> e" "e < 1"
    and step: "Ek = newtonStep e M Ep"
    and close: "\<bar>Ek - Ep\<bar> \<le> 1"
  shows "\<bar>Ek - e * sin Ek - M\<bar> \<le> (Ek - Ep)\<^sup>2"
proof -
  define h where "h = Ek - Ep"
  have den: "1 - e * cos Ep > 0" using e by (rule denominator_pos)
  have q: "(Ep - e * sin Ep - M) / (1 - e * cos Ep) * (1 - e * cos Ep) = Ep - e * sin Ep - M"
    using den by simp
  have hq: "h = - ((Ep - e * sin Ep - M) / (1 - e * cos Ep))"
    unfolding h_def step newtonStep_def by simp
  have fE: "Ep - e * sin Ep - M = - h * (1 - e * cos Ep)"
    unfolding hq using q by simp
  have Ek: "Ek = Ep + h" by (simp add: h_def)
  have "Ek - e * sin Ek - M = (Ep - e * sin Ep - M) + h - e * (sin (Ep + h) - sin Ep)"
    by (simp add: Ek algebra_simps)
  also have "\<dots> = - h * (1 - e * cos Ep) + h - e * (sin (Ep + h) - sin Ep)"
    by (simp only: fE)
  also have "\<dots> = - e * (sin (Ep + h) - sin Ep - h * cos Ep)"
    by (simp add: algebra_simps)
  finally have res: "Ek - e * sin Ek - M = - e * (sin (Ep + h) - sin Ep - h * cos Ep)" .
  have h1: "\<bar>h\<bar> \<le> 1" using close by (simp add: h_def)
  have "\<bar>Ek - e * sin Ek - M\<bar> = e * \<bar>sin (Ep + h) - sin Ep - h * cos Ep\<bar>"
    unfolding res using e by (simp add: abs_mult)
  also have "\<dots> \<le> 1 * h\<^sup>2"
    using e sin_second_order [OF h1, of Ep] by (intro mult_mono) simp_all
  finally show ?thesis by (simp add: h_def)
qed

lemma newton_residual:
  fixes e M Ep Ek :: real
  assumes e: "0 \<le> e" "e < 1"
    and step: "Ek = newtonStep e M Ep"
    and close: "\<bar>Ek - Ep\<bar> \<le> tolerance"
  shows "\<bar>Ek - e * sin Ek - M\<bar> \<le> tolerance\<^sup>2"
proof -
  have "\<bar>Ek - Ep\<bar> \<le> 1" using close by (simp add: tolerance_def)
  from newton_residual_sq [OF e step this]
  have "\<bar>Ek - e * sin Ek - M\<bar> \<le> (Ek - Ep)\<^sup>2" .
  also have "\<dots> \<le> tolerance\<^sup>2"
    using close by (simp add: abs_le_square_iff [symmetric] tolerance_def)
  finally show ?thesis .
qed

lemma tolerance_sq: "tolerance\<^sup>2 < 1 / 10 ^ 12"
  by (simp add: tolerance_def power2_eq_square)

text \<open>The loop, one pass at a time, and what holds of its variables when it ends.\<close>

lemma keplerLoop_continue:
  assumes "1 - e * cos E \<noteq> 0" "\<bar>newtonStep e M E - E\<bar> > tolerance" "n + 1 < 100"
  shows "keplerLoop e M E n = keplerLoop e M (newtonStep e M E) (n + 1)"
  using assms by (subst keplerLoop.simps) simp

lemma keplerLoop_stop:
  assumes "1 - e * cos E \<noteq> 0" "\<not> (\<bar>newtonStep e M E - E\<bar> > tolerance \<and> n + 1 < 100)"
  shows "keplerLoop e M E n = Some (newtonStep e M E, E, n + 1)"
  by (subst keplerLoop.simps) (use assms in auto)

lemma keplerLoop_undefined:
  assumes "1 - e * cos E = 0"
  shows "keplerLoop e M E n = None"
  using assms by (subst keplerLoop.simps) simp

lemma keplerLoop_final:
  "keplerLoop e M E n = Some (Ek, Ep, its) \<Longrightarrow>
     Ek = newtonStep e M Ep \<and> 1 - e * cos Ep \<noteq> 0 \<and> n < its \<and> (n < 100 \<longrightarrow> its \<le> 100)
     \<and> (its < 100 \<longrightarrow> \<bar>Ek - Ep\<bar> \<le> tolerance)"
proof (induction e M E n rule: keplerLoop.induct)
  case (1 e M E n)
  have den: "1 - e * cos E \<noteq> 0"
  proof
    assume "1 - e * cos E = 0"
    then have "keplerLoop e M E n = None" by (rule keplerLoop_undefined)
    with "1.prems" show False by simp
  qed
  show ?case
  proof (cases "\<bar>newtonStep e M E - E\<bar> > tolerance \<and> n + 1 < 100")
    case True
    then have go: "keplerLoop e M E n = keplerLoop e M (newtonStep e M E) (n + 1)"
      using den by (simp add: keplerLoop_continue)
    have "keplerLoop e M (newtonStep e M E) (n + 1) = Some (Ek, Ep, its)"
      using "1.prems" unfolding go .
    from "1.IH" [OF den True this] True show ?thesis by auto
  next
    case False
    then have stop: "keplerLoop e M E n = Some (newtonStep e M E, E, n + 1)"
      using den by (intro keplerLoop_stop)
    have "Some (newtonStep e M E, E, n + 1) = Some (Ek, Ep, its)"
      using "1.prems" unfolding stop .
    then have "Ek = newtonStep e M E" and "Ep = E" and "its = n + 1" by auto
    with False den show ?thesis by auto
  qed
qed

text \<open>
  If the Newton step exchanges two values further apart than the tolerance, the loop
  started at one of them runs until the count reaches 100.
\<close>

lemma keplerLoop_two_cycle:
  assumes "newtonStep e M a = b" "newtonStep e M b = a" "\<bar>b - a\<bar> > tolerance"
    and "1 - e * cos a \<noteq> 0" "1 - e * cos b \<noteq> 0"
    and "n + k = 99"
  shows "keplerLoop e M a n = (if even k then Some (b, a, 100) else Some (a, b, 100))"
  using assms
proof (induction k arbitrary: a b n)
  case 0
  then have "n = 99" by simp
  then show ?case using "0.prems"(1,4) by (simp add: keplerLoop_stop)
next
  case (Suc k)
  then have n: "n + 1 < 100" "(n + 1) + k = 99" by simp_all
  have "keplerLoop e M a n = keplerLoop e M b (n + 1)"
    using keplerLoop_continue [of e a M n] Suc.prems n by simp
  also have "\<dots> = (if even k then Some (a, b, 100) else Some (b, a, 100))"
    using Suc.IH [of b a "n + 1"] Suc.prems n by (simp add: abs_minus_commute)
  finally show ?case by simp
qed

lemma keplerLoop_total:
  assumes "0 \<le> e" "e < 1"
  shows "\<exists>r. keplerLoop e M E n = Some r"
  using assms
proof (induction e M E n rule: keplerLoop.induct)
  case (1 e M E n)
  have den: "1 - e * cos E \<noteq> 0"
    using denominator_pos [OF "1.prems", of E] by simp
  show ?case
  proof (cases "\<bar>newtonStep e M E - E\<bar> > tolerance \<and> n + 1 < 100")
    case True
    then have "keplerLoop e M E n = keplerLoop e M (newtonStep e M E) (n + 1)"
      using den by (simp add: keplerLoop_continue)
    with "1.IH" [OF den True "1.prems"] show ?thesis by simp
  next
    case False
    then have "keplerLoop e M E n = Some (newtonStep e M E, E, n + 1)"
      using den by (intro keplerLoop_stop)
    then show ?thesis by simp
  qed
qed

text \<open>
  A set of values that the Newton step maps into itself, moving each by more than the
  tolerance: the loop started in it runs until the count reaches 100.
\<close>

lemma keplerLoop_invariant:
  assumes inv: "\<And>E. I E \<Longrightarrow> I (newtonStep e M E) \<and> \<bar>newtonStep e M E - E\<bar> > tolerance
                          \<and> 1 - e * cos E \<noteq> 0"
    and "I E" and "n + k = 99"
  shows "\<exists>Ep. keplerLoop e M E n = Some (newtonStep e M Ep, Ep, 100) \<and> I Ep"
  using assms(2,3)
proof (induction k arbitrary: E n)
  case 0
  then have "n = 99" by simp
  moreover have "1 - e * cos E \<noteq> 0" using inv [OF "0.prems"(1)] by simp
  ultimately have "keplerLoop e M E n = Some (newtonStep e M E, E, 100)"
    by (simp add: keplerLoop_stop)
  with "0.prems"(1) show ?case by blast
next
  case (Suc k)
  then have n: "n + 1 < 100" "(n + 1) + k = 99" by simp_all
  from inv [OF Suc.prems(1)]
  have step: "I (newtonStep e M E)" "\<bar>newtonStep e M E - E\<bar> > tolerance" "1 - e * cos E \<noteq> 0"
    by simp_all
  have "keplerLoop e M E n = keplerLoop e M (newtonStep e M E) (n + 1)"
    using keplerLoop_continue [OF step(3) step(2) n(1)] .
  with Suc.IH [OF step(1) n(2)] show ?case by simp
qed

text \<open>
  Where such pairs come from: for an angle \<open>\<theta>\<close> with tangent \<open>\<tau>\<close>, the mean anomaly
  \<open>\<theta> - \<tau>\<close> and the eccentricity \<open>sin \<theta> / sin (2 \<theta> - \<tau>)\<close>, the step takes the
  mean anomaly to \<open>\<theta>\<close> and \<open>\<theta>\<close> back to the mean anomaly.
\<close>

lemma newton_two_cycle:
  fixes \<theta> \<tau> e M :: real
  assumes c: "cos \<theta> \<noteq> 0"
    and t: "sin \<theta> = \<tau> * cos \<theta>"
    and M: "M = \<theta> - \<tau>"
    and e: "e * sin (2 * \<theta> - \<tau>) = sin \<theta>"
    and d1: "1 - e * cos M \<noteq> 0"
    and d2: "1 - e * cos \<theta> \<noteq> 0"
  shows "newtonStep e M M = \<theta>" and "newtonStep e M \<theta> = M"
proof -
  have "2 * \<theta> - \<tau> = \<theta> + M" using M by simp
  then have "sin (2 * \<theta> - \<tau>) = sin \<theta> * cos M + cos \<theta> * sin M"
    by (simp only: sin_add)
  also have "\<dots> = cos \<theta> * (sin M + \<tau> * cos M)"
    by (simp add: t algebra_simps)
  finally have "e * (cos \<theta> * (sin M + \<tau> * cos M)) = \<tau> * cos \<theta>"
    using e t by simp
  then have "cos \<theta> * (e * (sin M + \<tau> * cos M)) = cos \<theta> * \<tau>"
    by (simp add: algebra_simps)
  then have key: "e * (sin M + \<tau> * cos M) = \<tau>"
    using c by simp
  have "e * sin M = \<tau> * (1 - e * cos M)"
    using key by (simp add: algebra_simps)
  then have "e * sin M / (1 - e * cos M) = \<tau>"
    using d1 by (simp add: field_simps)
  then show "newtonStep e M M = \<theta>"
    using M by (simp add: newtonStep_def)
  have "\<theta> - e * sin \<theta> - M = \<tau> * (1 - e * cos \<theta>)"
    using M t by (simp add: algebra_simps)
  then have "(\<theta> - e * sin \<theta> - M) / (1 - e * cos \<theta>) = \<tau>"
    using d2 by simp
  then show "newtonStep e M \<theta> = M"
    using M by (simp add: newtonStep_def)
qed

subsection \<open>The attracting cycle\<close>

lemma arctan_quarter_products:
  "sin (arctan (1/4 :: real)) * cos (arctan (1/4)) = 4 / 17"
  "sin (arctan (1/4 :: real)) * sin (arctan (1/4)) = 1 / 17"
  "cos (arctan (1/4 :: real)) * cos (arctan (1/4)) = 16 / 17"
proof -
  define sa :: real where "sa = sin (arctan (1/4))"
  define ca :: real where "ca = cos (arctan (1/4))"
  have "tan (arctan (1/4 :: real)) = 1/4" by (rule tan_arctan)
  moreover have "ca \<noteq> 0" unfolding ca_def by simp
  ultimately have t: "sa = ca / 4"
    unfolding sa_def ca_def tan_def by (simp add: field_simps)
  have one: "ca * ca + sa * sa = 1" unfolding sa_def ca_def by simp
  have ss: "sa * sa = (ca * ca) / 16" unfolding t by simp
  have sc: "sa * ca = (ca * ca) / 4" unfolding t by simp
  from one ss have cc: "ca * ca = 16 / 17" by linarith
  show "sin (arctan (1/4 :: real)) * cos (arctan (1/4)) = 4 / 17"
    using sc cc unfolding sa_def ca_def by linarith
  show "sin (arctan (1/4 :: real)) * sin (arctan (1/4)) = 1 / 17"
    using ss cc unfolding sa_def ca_def by linarith
  show "cos (arctan (1/4 :: real)) * cos (arctan (1/4)) = 16 / 17"
    using cc unfolding ca_def .
qed

lemma arctan_quarter_double:
  "sin (2 * arctan (1/4 :: real)) = 8 / 17" "cos (2 * arctan (1/4 :: real)) = 15 / 17"
proof -
  have "sin (2 * arctan (1/4 :: real)) = 2 * (sin (arctan (1/4)) * cos (arctan (1/4)))"
    by (simp only: sin_double mult.assoc)
  then show "sin (2 * arctan (1/4 :: real)) = 8 / 17"
    unfolding arctan_quarter_products by simp
  have "cos (2 * arctan (1/4 :: real))
      = cos (arctan (1/4)) * cos (arctan (1/4)) - sin (arctan (1/4)) * sin (arctan (1/4))"
    by (simp only: cos_double power2_eq_square)
  then show "cos (2 * arctan (1/4 :: real)) = 15 / 17"
    unfolding arctan_quarter_products by simp
qed

lemma stable_denominator:
  "sin (2 * arctan (1/4 :: real) - 1/4) = (8 * cos (1/4) - 15 * sin (1/4)) / 17"
  "4 / 17 < sin (2 * arctan (1/4 :: real) - 1/4)"
proof -
  show eq: "sin (2 * arctan (1/4 :: real) - 1/4) = (8 * cos (1/4) - 15 * sin (1/4)) / 17"
    by (simp add: sin_diff arctan_quarter_double)
  show "4 / 17 < sin (2 * arctan (1/4 :: real) - 1/4)"
    unfolding eq using cos_quarter(1) sin_quarter(1) by simp
qed

lemma stable_cycle_steps:
  "newtonStep stableCycleEccentricity stableCycleMeanAnomaly stableCycleMeanAnomaly
     = - arctan (1/4)"
  "newtonStep stableCycleEccentricity stableCycleMeanAnomaly (- arctan (1/4))
     = stableCycleMeanAnomaly"
  "1 - stableCycleEccentricity * cos stableCycleMeanAnomaly \<noteq> 0"
  "1 - stableCycleEccentricity * cos (- arctan (1/4)) \<noteq> 0"
proof -
  define a :: real where "a = arctan (1/4)"
  define S :: real where "S = sin (2 * a - 1/4)"
  define e :: real where "e = sin a / S"
  have Spos: "4 / 17 < S" unfolding S_def a_def by (rule stable_denominator)
  then have S0: "S \<noteq> 0" by simp
  have tan: "sin a = (1/4) * cos a"
  proof -
    have "tan a = 1/4" unfolding a_def by (simp add: tan_arctan)
    moreover have "cos a \<noteq> 0" unfolding a_def by simp
    ultimately show ?thesis by (simp add: tan_def field_simps)
  qed
  have sc: "sin a * cos a = 4 / 17" and ss: "sin a * sin a = 1 / 17"
    unfolding a_def by (rule arctan_quarter_products(1), rule arctan_quarter_products(2))
  have c: "cos (- a) \<noteq> 0" unfolding a_def by simp
  have t: "sin (- a) = (- (1/4)) * cos (- a)" using tan by simp
  have M: "1/4 - a = - a - (- (1/4))" by simp
  have "2 * (- a) - (- (1/4)) = - (2 * a - 1/4)" by simp
  then have "sin (2 * (- a) - (- (1/4))) = - S" unfolding S_def by (simp only: sin_minus)
  then have ee: "e * sin (2 * (- a) - (- (1/4))) = sin (- a)"
    using S0 by (simp add: e_def)
  have "e * cos a = (sin a * cos a) / S" by (simp add: e_def)
  then have ecos: "e * cos a = (4 / 17) / S" unfolding sc .
  have lt: "(4 / 17) / S < 1" using Spos by simp
  have "e * cos a < 1" unfolding ecos by (rule lt)
  then have d2: "1 - e * cos (- a) \<noteq> 0" by simp
  have "e * cos (1/4 - a) = (cos (1/4) * (sin a * cos a) + sin (1/4) * (sin a * sin a)) / S"
    by (simp add: e_def cos_diff algebra_simps add_divide_distrib)
  also have "\<dots> = (cos (1/4) * (4 / 17) + sin (1/4) * (1 / 17)) / S"
    unfolding sc ss ..
  also have "\<dots> = (4 * cos (1/4) + sin (1/4)) / (17 * S)"
    by (simp add: field_simps)
  also have "17 * S = 8 * cos (1/4) - 15 * sin (1/4)"
    unfolding S_def a_def stable_denominator(1) by simp
  finally have ecM: "e * cos (1/4 - a) = (4 * cos (1/4) + sin (1/4)) / (8 * cos (1/4) - 15 * sin (1/4))" .
  have D: "0 < 8 * cos (1/4 :: real) - 15 * sin (1/4 :: real)"
    using cos_quarter(1) sin_quarter(1) by simp
  have "8 * cos (1/4 :: real) - 15 * sin (1/4 :: real) < 4 * cos (1/4) + sin (1/4)"
    using cos_quarter(2) sin_quarter(2) by simp
  then have "1 < e * cos (1/4 - a)" unfolding ecM using D by simp
  then have d1: "1 - e * cos (1/4 - a) \<noteq> 0" by simp
  have r: "newtonStep e (1/4 - a) (1/4 - a) = - a" "newtonStep e (1/4 - a) (- a) = 1/4 - a"
    using newton_two_cycle [OF c t M ee d1 d2] by simp_all
  have eq: "stableCycleEccentricity = e" "stableCycleMeanAnomaly = 1/4 - a"
    by (simp_all add: stableCycleEccentricity_def stableCycleMeanAnomaly_def e_def S_def a_def)
  show "newtonStep stableCycleEccentricity stableCycleMeanAnomaly stableCycleMeanAnomaly
     = - arctan (1/4)"
    unfolding eq using r(1) by (simp add: a_def)
  show "newtonStep stableCycleEccentricity stableCycleMeanAnomaly (- arctan (1/4))
     = stableCycleMeanAnomaly"
    unfolding eq using r(2) by (simp add: a_def)
  show "1 - stableCycleEccentricity * cos stableCycleMeanAnomaly \<noteq> 0"
    unfolding eq by (rule d1)
  show "1 - stableCycleEccentricity * cos (- arctan (1/4)) \<noteq> 0"
    unfolding eq using d2 by (simp add: a_def)
qed

lemma stableCycleEccentricity_gt_one: "1 < stableCycleEccentricity"
proof -
  define a :: real where "a = arctan (1/4)"
  define S :: real where "S = sin (2 * a - 1/4)"
  have Spos: "4 / 17 < S" unfolding S_def a_def by (rule stable_denominator)
  have "S = (8 * cos (1/4) - 15 * sin (1/4)) / 17"
    unfolding S_def a_def by (rule stable_denominator)
  then have Sle: "S < 24 / 100"
    using cos_quarter(2) sin_quarter(2) by simp
  have ss: "sin a * sin a = 1 / 17"
    unfolding a_def by (rule arctan_quarter_products)
  have "0 < a" unfolding a_def by simp
  moreover have "a < pi" unfolding a_def using arctan_ubound [of "1/4"] pi_gt_zero by linarith
  ultimately have pos: "0 < sin a" by (rule sin_gt_zero)
  have "24 / 100 \<le> sin a"
  proof (rule ccontr)
    assume "\<not> 24 / 100 \<le> sin a"
    then have "sin a < 24 / 100" by simp
    then have "sin a * sin a < (24 / 100) * (24 / 100)"
      using pos by (intro mult_strict_mono) simp_all
    then show False unfolding ss by simp
  qed
  then have "S < sin a" using Sle by linarith
  then have "1 < sin a / S" using Spos by simp
  then show ?thesis
    by (simp add: stableCycleEccentricity_def S_def a_def)
qed

lemma solveKepler_stable_cycle:
  "solveKepler stableCycleEccentricity stableCycleMeanAnomaly
     = Some (stableCycleMeanAnomaly, - arctan (1/4), 100)"
proof -
  have far: "\<bar>- arctan (1/4) - stableCycleMeanAnomaly\<bar> > tolerance"
    by (simp add: stableCycleMeanAnomaly_def tolerance_def)
  have "keplerLoop stableCycleEccentricity stableCycleMeanAnomaly stableCycleMeanAnomaly 0
      = (if even (99::nat) then Some (- arctan (1/4), stableCycleMeanAnomaly, 100)
         else Some (stableCycleMeanAnomaly, - arctan (1/4), 100))"
    by (rule keplerLoop_two_cycle [OF stable_cycle_steps(1,2) far stable_cycle_steps(3,4)]) simp
  then show ?thesis by (simp add: solveKepler_def)
qed

lemma js_rem_in_range:
  assumes "0 \<le> x" "x < b"
  shows "js_rem x b = x" and "js_rem (x + b) b = x"
proof -
  have b: "0 < b" using assms by simp
  have "0 \<le> x / b" "x / b < 1" using assms b by simp_all
  then have "\<lfloor>x / b\<rfloor> = 0" by linarith
  then show "js_rem x b = x"
    using \<open>0 \<le> x / b\<close> by (simp add: js_rem_def js_trunc_def)
  have q: "(x + b) / b = x / b + 1" using b by (simp add: field_simps)
  have "\<lfloor>x / b + 1\<rfloor> = 1" using \<open>0 \<le> x / b\<close> \<open>x / b < 1\<close> by linarith
  then show "js_rem (x + b) b = x"
    using \<open>0 \<le> x / b\<close> by (simp add: js_rem_def js_trunc_def q)
qed

lemma stableCycleMeanAnomaly_range:
  "0 \<le> stableCycleMeanAnomaly" "stableCycleMeanAnomaly < 2 * pi"
proof -
  have "arctan (1/4 :: real) \<le> 1/4" by (rule arctan_le_self) simp
  then show "0 \<le> stableCycleMeanAnomaly" by (simp add: stableCycleMeanAnomaly_def)
  have "0 < arctan (1/4 :: real)" by simp
  then have "stableCycleMeanAnomaly < 1/4" by (simp add: stableCycleMeanAnomaly_def)
  then show "stableCycleMeanAnomaly < 2 * pi" using pi_ge_two by linarith
qed

lemma stable_cycle_time:
  "timeFromEpoch stableCycleElements 315964800000 = 0"
  by (simp add: timeFromEpoch_def stableCycleElements_def UNIX_TO_GPS_EPOCH_SECONDS_def
      GPS_SECONDS_PER_WEEK_def js_rem_def js_trunc_def Let_def)

lemma stable_cycle_anomaly:
  "meanAnomaly stableCycleElements 0 = Some stableCycleMeanAnomaly"
proof -
  have "js_rem (js_rem stableCycleMeanAnomaly (2 * pi) + 2 * pi) (2 * pi) = stableCycleMeanAnomaly"
    using js_rem_in_range [OF stableCycleMeanAnomaly_range] by simp
  then show ?thesis
    by (simp add: meanAnomaly_def stableCycleElements_def Let_def)
qed

lemma propagate_stable_cycle:
  "propagate stableCycleElements 315964800000 = NaNPosition"
proof -
  have e: "ecc stableCycleElements = stableCycleEccentricity"
    by (simp add: stableCycleElements_def)
  have "1 * 1 < stableCycleEccentricity * stableCycleEccentricity"
    using stableCycleEccentricity_gt_one by (intro mult_strict_mono) simp_all
  then have "1 - (ecc stableCycleElements)\<^sup>2 < 0"
    by (simp add: e power2_eq_square)
  then have "positionFromAnomaly stableCycleElements 0 stableCycleMeanAnomaly = NaNPosition"
    by (simp add: positionFromAnomaly_def)
  then show ?thesis
    by (simp add: propagate_def stable_cycle_time stable_cycle_anomaly e
        solveKepler_stable_cycle Let_def)
qed

lemma findSatellite_cycle:
  "findSatellite cycleRinexData ''K01''
     = Some \<lparr>sat_id = ''K01'', orbitalParameters = Some stableCycleElements,
             timeParameters = None\<rparr>"
  "findSatellite cycleRinexData ''K02''
     = Some \<lparr>sat_id = ''K02'', orbitalParameters = Some convergentElements,
             timeParameters = None\<rparr>"
  by (simp_all add: findSatellite_def cycleRinexData_def)

subsection \<open>The cycle with an eccentricity below one\<close>

text \<open>
  Sine and cosine at the start 0.191564 and at the centres 4.537761 and 7.699517 of the
  two intervals, by doubling from a sixteenth and a thirty-second of them.
\<close>

lemma cycle_start_0:
  "\<bar>sin (191564 / 1000000 :: real) - 19039451799 / 100000000000\<bar> \<le> 1 / 10000000000"
  "\<bar>cos (191564 / 1000000 :: real) - 98170765889 / 100000000000\<bar> \<le> 1 / 10000000000"
proof -
  have half: "\<bar>sin ((191564 / 1000000 :: real) / 2) - 9563561343 / 100000000000\<bar> \<le> 1 / 100000000000"
    by (rule sin_septic_approx) (simp add: power_divide)
  show "\<bar>sin (191564 / 1000000 :: real) - 19039451799 / 100000000000\<bar> \<le> 1 / 10000000000"
    by (rule sin_septic_approx) (simp add: power_divide)
  show "\<bar>cos (191564 / 1000000 :: real) - 98170765889 / 100000000000\<bar> \<le> 1 / 10000000000"
    by (rule cos_half_approx [OF half, where r = "1 / 100000000000"]) simp_all
qed

lemma cycle_first_0:
  "\<bar>sin (4537761 / 16000000 :: real) - 27982331039 / 100000000000\<bar> \<le> 1 / 10000000000"
  "\<bar>cos (4537761 / 16000000 :: real) - 48002575841 / 50000000000\<bar> \<le> 1 / 10000000000"
proof -
  have half: "\<bar>sin ((4537761 / 16000000 :: real) / 2) - 14133025717 / 100000000000\<bar> \<le> 1 / 100000000000"
    by (rule sin_septic_approx) (simp add: power_divide)
  show "\<bar>sin (4537761 / 16000000 :: real) - 27982331039 / 100000000000\<bar> \<le> 1 / 10000000000"
    by (rule sin_septic_approx) (simp add: power_divide)
  show "\<bar>cos (4537761 / 16000000 :: real) - 48002575841 / 50000000000\<bar> \<le> 1 / 10000000000"
    by (rule cos_half_approx [OF half, where r = "1 / 100000000000"]) simp_all
qed

lemma cycle_first_1:
  "\<bar>sin (4537761 / 8000000 :: real) - 13432239679 / 25000000000\<bar> \<le> 1 / 2000000000"
  "\<bar>cos (4537761 / 8000000 :: real) - 84339782991 / 100000000000\<bar> \<le> 1 / 2000000000"
proof -
  have arg: "2 * (4537761 / 16000000 :: real) = 4537761 / 8000000" by simp
  note step = double_approx [OF cycle_first_0, where r = "1 / 100000000000" and sb = "13432239679 / 25000000000"
      and cb = "84339782991 / 100000000000" and dd = "1 / 2000000000", unfolded arg]
  show "\<bar>sin (4537761 / 8000000 :: real) - 13432239679 / 25000000000\<bar> \<le> 1 / 2000000000"
    by (rule step(1)) simp_all
  show "\<bar>cos (4537761 / 8000000 :: real) - 84339782991 / 100000000000\<bar> \<le> 1 / 2000000000"
    by (rule step(2)) simp_all
qed

lemma cycle_first_2:
  "\<bar>sin (4537761 / 4000000 :: real) - 90629774369 / 100000000000\<bar> \<le> 1 / 400000000"
  "\<bar>cos (4537761 / 4000000 :: real) - 42263979903 / 100000000000\<bar> \<le> 1 / 400000000"
proof -
  have arg: "2 * (4537761 / 8000000 :: real) = 4537761 / 4000000" by simp
  note step = double_approx [OF cycle_first_1, where r = "1 / 100000000000" and sb = "90629774369 / 100000000000"
      and cb = "42263979903 / 100000000000" and dd = "1 / 400000000", unfolded arg]
  show "\<bar>sin (4537761 / 4000000 :: real) - 90629774369 / 100000000000\<bar> \<le> 1 / 400000000"
    by (rule step(1)) simp_all
  show "\<bar>cos (4537761 / 4000000 :: real) - 42263979903 / 100000000000\<bar> \<le> 1 / 400000000"
    by (rule step(2)) simp_all
qed

lemma cycle_first_3:
  "\<bar>sin (4537761 / 2000000 :: real) - 76607499251 / 100000000000\<bar> \<le> 1 / 80000000"
  "\<bar>cos (4537761 / 2000000 :: real) - - (64275120049 / 100000000000)\<bar> \<le> 1 / 80000000"
proof -
  have arg: "2 * (4537761 / 4000000 :: real) = 4537761 / 2000000" by simp
  note step = double_approx [OF cycle_first_2, where r = "1 / 100000000000" and sb = "76607499251 / 100000000000"
      and cb = "- (64275120049 / 100000000000)" and dd = "1 / 80000000", unfolded arg]
  show "\<bar>sin (4537761 / 2000000 :: real) - 76607499251 / 100000000000\<bar> \<le> 1 / 80000000"
    by (rule step(1)) simp_all
  show "\<bar>cos (4537761 / 2000000 :: real) - - (64275120049 / 100000000000)\<bar> \<le> 1 / 80000000"
    by (rule step(2)) simp_all
qed

lemma cycle_first_4:
  "\<bar>sin (4537761 / 1000000 :: real) - - (4923956211 / 5000000000)\<bar> \<le> 1 / 16000000"
  "\<bar>cos (4537761 / 1000000 :: real) - - (8687089421 / 50000000000)\<bar> \<le> 1 / 16000000"
proof -
  have arg: "2 * (4537761 / 2000000 :: real) = 4537761 / 1000000" by simp
  note step = double_approx [OF cycle_first_3, where r = "1 / 100000000000" and sb = "- (4923956211 / 5000000000)"
      and cb = "- (8687089421 / 50000000000)" and dd = "1 / 16000000", unfolded arg]
  show "\<bar>sin (4537761 / 1000000 :: real) - - (4923956211 / 5000000000)\<bar> \<le> 1 / 16000000"
    by (rule step(1)) simp_all
  show "\<bar>cos (4537761 / 1000000 :: real) - - (8687089421 / 50000000000)\<bar> \<le> 1 / 16000000"
    by (rule step(2)) simp_all
qed

lemma cycle_far_0:
  "\<bar>sin (7699517 / 32000000 :: real) - 23829500727 / 100000000000\<bar> \<le> 1 / 10000000000"
  "\<bar>cos (7699517 / 32000000 :: real) - 24279820447 / 25000000000\<bar> \<le> 1 / 10000000000"
proof -
  have half: "\<bar>sin ((7699517 / 32000000 :: real) / 2) - 12001496181 / 100000000000\<bar> \<le> 1 / 100000000000"
    by (rule sin_septic_approx) (simp add: power_divide)
  show "\<bar>sin (7699517 / 32000000 :: real) - 23829500727 / 100000000000\<bar> \<le> 1 / 10000000000"
    by (rule sin_septic_approx) (simp add: power_divide)
  show "\<bar>cos (7699517 / 32000000 :: real) - 24279820447 / 25000000000\<bar> \<le> 1 / 10000000000"
    by (rule cos_half_approx [OF half, where r = "1 / 100000000000"]) simp_all
qed

lemma cycle_far_1:
  "\<bar>sin (7699517 / 16000000 :: real) - 46286079919 / 100000000000\<bar> \<le> 1 / 2000000000"
  "\<bar>cos (7699517 / 16000000 :: real) - 88643097901 / 100000000000\<bar> \<le> 1 / 2000000000"
proof -
  have arg: "2 * (7699517 / 32000000 :: real) = 7699517 / 16000000" by simp
  note step = double_approx [OF cycle_far_0, where r = "1 / 100000000000" and sb = "46286079919 / 100000000000"
      and cb = "88643097901 / 100000000000" and dd = "1 / 2000000000", unfolded arg]
  show "\<bar>sin (7699517 / 16000000 :: real) - 46286079919 / 100000000000\<bar> \<le> 1 / 2000000000"
    by (rule step(1)) simp_all
  show "\<bar>cos (7699517 / 16000000 :: real) - 88643097901 / 100000000000\<bar> \<le> 1 / 2000000000"
    by (rule step(2)) simp_all
qed

lemma cycle_far_2:
  "\<bar>sin (7699517 / 8000000 :: real) - 41029415137 / 50000000000\<bar> \<le> 1 / 400000000"
  "\<bar>cos (7699517 / 8000000 :: real) - 3571998507 / 6250000000\<bar> \<le> 1 / 400000000"
proof -
  have arg: "2 * (7699517 / 16000000 :: real) = 7699517 / 8000000" by simp
  note step = double_approx [OF cycle_far_1, where r = "1 / 100000000000" and sb = "41029415137 / 50000000000"
      and cb = "3571998507 / 6250000000" and dd = "1 / 400000000", unfolded arg]
  show "\<bar>sin (7699517 / 8000000 :: real) - 41029415137 / 50000000000\<bar> \<le> 1 / 400000000"
    by (rule step(1)) simp_all
  show "\<bar>cos (7699517 / 8000000 :: real) - 3571998507 / 6250000000\<bar> \<le> 1 / 400000000"
    by (rule step(2)) simp_all
qed

lemma cycle_far_3:
  "\<bar>sin (7699517 / 4000000 :: real) - 11724560769 / 12500000000\<bar> \<le> 1 / 80000000"
  "\<bar>cos (7699517 / 4000000 :: real) - - (8668258131 / 25000000000)\<bar> \<le> 1 / 80000000"
proof -
  have arg: "2 * (7699517 / 8000000 :: real) = 7699517 / 4000000" by simp
  note step = double_approx [OF cycle_far_2, where r = "1 / 100000000000" and sb = "11724560769 / 12500000000"
      and cb = "- (8668258131 / 25000000000)" and dd = "1 / 80000000", unfolded arg]
  show "\<bar>sin (7699517 / 4000000 :: real) - 11724560769 / 12500000000\<bar> \<le> 1 / 80000000"
    by (rule step(1)) simp_all
  show "\<bar>cos (7699517 / 4000000 :: real) - - (8668258131 / 25000000000)\<bar> \<le> 1 / 80000000"
    by (rule step(2)) simp_all
qed

lemma cycle_far_4:
  "\<bar>sin (7699517 / 2000000 :: real) - - (650441723 / 1000000000)\<bar> \<le> 1 / 16000000"
  "\<bar>cos (7699517 / 2000000 :: real) - - (75955616301 / 100000000000)\<bar> \<le> 1 / 16000000"
proof -
  have arg: "2 * (7699517 / 4000000 :: real) = 7699517 / 2000000" by simp
  note step = double_approx [OF cycle_far_3, where r = "1 / 100000000000" and sb = "- (650441723 / 1000000000)"
      and cb = "- (75955616301 / 100000000000)" and dd = "1 / 16000000", unfolded arg]
  show "\<bar>sin (7699517 / 2000000 :: real) - - (650441723 / 1000000000)\<bar> \<le> 1 / 16000000"
    by (rule step(1)) simp_all
  show "\<bar>cos (7699517 / 2000000 :: real) - - (75955616301 / 100000000000)\<bar> \<le> 1 / 16000000"
    by (rule step(2)) simp_all
qed

lemma cycle_far_5:
  "\<bar>sin (7699517 / 1000000 :: real) - 98809403877 / 100000000000\<bar> \<le> 1 / 3200000"
  "\<bar>cos (7699517 / 1000000 :: real) - 615404519 / 4000000000\<bar> \<le> 1 / 3200000"
proof -
  have arg: "2 * (7699517 / 2000000 :: real) = 7699517 / 1000000" by simp
  note step = double_approx [OF cycle_far_4, where r = "1 / 100000000000" and sb = "98809403877 / 100000000000"
      and cb = "615404519 / 4000000000" and dd = "1 / 3200000", unfolded arg]
  show "\<bar>sin (7699517 / 1000000 :: real) - 98809403877 / 100000000000\<bar> \<le> 1 / 3200000"
    by (rule step(1)) simp_all
  show "\<bar>cos (7699517 / 1000000 :: real) - 615404519 / 4000000000\<bar> \<le> 1 / 3200000"
    by (rule step(2)) simp_all
qed

lemma trapped_from_start:
  "\<bar>newtonStep trappedEccentricity trappedMeanAnomaly trappedMeanAnomaly - 4.537761\<bar>
     \<le> 1 / 10 ^ 6"
proof -
  have e: "(0::real) \<le> 97512 / 100000" "(97512 / 100000 :: real) < 1" by simp_all
  have E: "\<bar>(191564 / 1000000 :: real) - 191564 / 1000000\<bar> \<le> 0" by simp
  note b = newtonStep_between [OF e E cycle_start_0, where M = "191564 / 1000000"
      and l = "4537760 / 1000000" and u = "4537762 / 1000000"]
  have "4537760 / 1000000 \<le> newtonStep (97512 / 100000) (191564 / 1000000) (191564 / 1000000)"
    by (rule b(1)) simp_all
  moreover
  have "newtonStep (97512 / 100000) (191564 / 1000000) (191564 / 1000000) \<le> 4537762 / 1000000"
    by (rule b(2)) simp_all
  ultimately have "\<bar>newtonStep (97512 / 100000) (191564 / 1000000) (191564 / 1000000)
      - 4537761 / 1000000\<bar> \<le> 1 / 1000000"
    by linarith
  then show ?thesis
    by (simp add: trappedEccentricity_def trappedMeanAnomaly_def)
qed

lemma trapped_from_first:
  assumes "\<bar>E - 4.537761\<bar> \<le> 1 / 10 ^ 6"
  shows "\<bar>newtonStep trappedEccentricity trappedMeanAnomaly E\<bar> \<le> 1 / 10 ^ 4"
proof -
  have e: "(0::real) \<le> 97512 / 100000" "(97512 / 100000 :: real) < 1" by simp_all
  have E: "\<bar>E - 4537761 / 1000000\<bar> \<le> 1 / 1000000" using assms by simp
  note b = newtonStep_between [OF e E cycle_first_4, where M = "191564 / 1000000"
      and l = "- (1 / 10000)" and u = "1 / 10000"]
  have "- (1 / 10000) \<le> newtonStep (97512 / 100000) (191564 / 1000000) E"
    by (rule b(1)) simp_all
  moreover
  have "newtonStep (97512 / 100000) (191564 / 1000000) E \<le> 1 / 10000"
    by (rule b(2)) simp_all
  ultimately have "\<bar>newtonStep (97512 / 100000) (191564 / 1000000) E\<bar> \<le> 1 / 10000"
    by linarith
  then show ?thesis
    by (simp add: trappedEccentricity_def trappedMeanAnomaly_def)
qed

lemma trapped_from_far:
  assumes "\<bar>E - 7.699517\<bar> \<le> 1 / 10 ^ 6"
  shows "\<bar>newtonStep trappedEccentricity trappedMeanAnomaly E\<bar> \<le> 1 / 10 ^ 4"
proof -
  have e: "(0::real) \<le> 97512 / 100000" "(97512 / 100000 :: real) < 1" by simp_all
  have E: "\<bar>E - 7699517 / 1000000\<bar> \<le> 1 / 1000000" using assms by simp
  note b = newtonStep_between [OF e E cycle_far_5, where M = "191564 / 1000000"
      and l = "- (1 / 10000)" and u = "1 / 10000"]
  have "- (1 / 10000) \<le> newtonStep (97512 / 100000) (191564 / 1000000) E"
    by (rule b(1)) simp_all
  moreover
  have "newtonStep (97512 / 100000) (191564 / 1000000) E \<le> 1 / 10000"
    by (rule b(2)) simp_all
  ultimately have "\<bar>newtonStep (97512 / 100000) (191564 / 1000000) E\<bar> \<le> 1 / 10000"
    by linarith
  then show ?thesis
    by (simp add: trappedEccentricity_def trappedMeanAnomaly_def)
qed

lemma trapped_from_zero:
  assumes "\<bar>E\<bar> \<le> 1 / 10 ^ 4"
  shows "\<bar>newtonStep trappedEccentricity trappedMeanAnomaly E - 7.699517\<bar> \<le> 1 / 10 ^ 6"
proof -
  have e: "(0::real) \<le> 97512 / 100000" "(97512 / 100000 :: real) < 1" by simp_all
  have E: "\<bar>E\<bar> \<le> 1 / 10000" using assms by simp
  note b = newtonStep_near_zero [OF e E, where M = "191564 / 1000000"
      and l = "7699516 / 1000000" and u = "7699518 / 1000000"]
  have "7699516 / 1000000 \<le> newtonStep (97512 / 100000) (191564 / 1000000) E"
    by (rule b(1)) (simp_all add: power_divide)
  moreover
  have "newtonStep (97512 / 100000) (191564 / 1000000) E \<le> 7699518 / 1000000"
    by (rule b(2)) (simp_all add: power_divide)
  ultimately have "\<bar>newtonStep (97512 / 100000) (191564 / 1000000) E
      - 7699517 / 1000000\<bar> \<le> 1 / 1000000"
    by linarith
  then show ?thesis
    by (simp add: trappedEccentricity_def trappedMeanAnomaly_def)
qed

lemma trapped_step:
  assumes "trapped E"
  shows "trapped (newtonStep trappedEccentricity trappedMeanAnomaly E)"
    and "\<bar>newtonStep trappedEccentricity trappedMeanAnomaly E - E\<bar> > tolerance"
    and "1 - trappedEccentricity * cos E \<noteq> 0"
proof -
  define N where "N = newtonStep trappedEccentricity trappedMeanAnomaly E"
  have "0 < 1 - trappedEccentricity * cos E"
    by (rule denominator_pos) (simp_all add: trappedEccentricity_def)
  then show "1 - trappedEccentricity * cos E \<noteq> 0" by simp
  from assms consider
    (start) "E = 191564 / 1000000"
    | (first) "\<bar>E - 4537761 / 1000000\<bar> \<le> 1 / 1000000"
    | (zero) "\<bar>E\<bar> \<le> 1 / 10000"
    | (far) "\<bar>E - 7699517 / 1000000\<bar> \<le> 1 / 1000000"
    by (auto simp: trapped_def trappedMeanAnomaly_def)
  then have "trapped N \<and> \<bar>N - E\<bar> > 1 / 1000000000000"
  proof cases
    case start
    have h: "\<bar>N - 4537761 / 1000000\<bar> \<le> 1 / 1000000"
      using trapped_from_start by (simp add: N_def start trappedMeanAnomaly_def)
    have "trapped N" using h by (simp add: trapped_def)
    moreover have "\<bar>N - E\<bar> > 1 / 1000000000000" using h start by linarith
    ultimately show ?thesis ..
  next
    case first
    then have h: "\<bar>N\<bar> \<le> 1 / 10000"
      using trapped_from_first [of E] by (simp add: N_def)
    have "trapped N" using h by (simp add: trapped_def)
    moreover have "\<bar>N - E\<bar> > 1 / 1000000000000" using h first by linarith
    ultimately show ?thesis ..
  next
    case zero
    then have h: "\<bar>N - 7699517 / 1000000\<bar> \<le> 1 / 1000000"
      using trapped_from_zero [of E] by (simp add: N_def)
    have "trapped N" using h by (simp add: trapped_def)
    moreover have "\<bar>N - E\<bar> > 1 / 1000000000000" using h zero by linarith
    ultimately show ?thesis ..
  next
    case far
    then have h: "\<bar>N\<bar> \<le> 1 / 10000"
      using trapped_from_far [of E] by (simp add: N_def)
    have "trapped N" using h by (simp add: trapped_def)
    moreover have "\<bar>N - E\<bar> > 1 / 1000000000000" using h far by linarith
    ultimately show ?thesis ..
  qed
  then show "trapped (newtonStep trappedEccentricity trappedMeanAnomaly E)"
    and "\<bar>newtonStep trappedEccentricity trappedMeanAnomaly E - E\<bar> > tolerance"
    by (simp_all add: N_def tolerance_def)
qed

lemma trapped_residual:
  assumes "trapped E"
  shows "1 / 10 \<le> \<bar>E - trappedEccentricity * sin E - trappedMeanAnomaly\<bar>"
proof -
  have s1: "\<bar>sin E\<bar> \<le> 1" by simp
  have s2: "\<bar>sin E\<bar> \<le> \<bar>E\<bar>" by (rule abs_sin_x_le_abs_x)
  from assms consider
    (start) "E = 191564 / 1000000"
    | (first) "\<bar>E - 4537761 / 1000000\<bar> \<le> 1 / 1000000"
    | (zero) "\<bar>E\<bar> \<le> 1 / 10000"
    | (far) "\<bar>E - 7699517 / 1000000\<bar> \<le> 1 / 1000000"
    by (auto simp: trapped_def trappedMeanAnomaly_def)
  then have "1 / 10 \<le> \<bar>E - 97512 / 100000 * sin E - 191564 / 1000000\<bar>"
  proof cases
    case start
    have "\<bar>sin (191564 / 1000000 :: real) - 19039451799 / 100000000000\<bar> \<le> 1 / 10000000000"
      by (rule cycle_start_0)
    then show ?thesis unfolding start by linarith
  next
    case first
    then show ?thesis using s1 by linarith
  next
    case zero
    then show ?thesis using s2 by linarith
  next
    case far
    then show ?thesis using s1 by linarith
  qed
  then show ?thesis by (simp add: trappedEccentricity_def trappedMeanAnomaly_def)
qed

lemma solveKepler_trapped:
  "\<exists>Ep. solveKepler trappedEccentricity trappedMeanAnomaly
           = Some (newtonStep trappedEccentricity trappedMeanAnomaly Ep, Ep, 100)
        \<and> trapped Ep"
  unfolding solveKepler_def
proof (rule keplerLoop_invariant [where k = 99])
  show "trapped trappedMeanAnomaly" by (simp add: trapped_def)
  show "0 + 99 = (99::nat)" by simp
  fix E assume "trapped E"
  then show "trapped (newtonStep trappedEccentricity trappedMeanAnomaly E)
      \<and> \<bar>newtonStep trappedEccentricity trappedMeanAnomaly E - E\<bar> > tolerance
      \<and> 1 - trappedEccentricity * cos E \<noteq> 0"
    using trapped_step [of E] by simp
qed

subsection \<open>A run that converges\<close>

text \<open>
  A run of two passes: eccentricity 1/2 and mean anomaly 1e-7. The first step is between
  1e-8 and 2e-7, the second at most 1e-13.
\<close>

lemma convergent_first_step:
  "1 / 10 ^ 8 \<le> newtonStep (1 / 2) (1 / 10 ^ 7) (1 / 10 ^ 7) - 1 / 10 ^ 7"
  "newtonStep (1 / 2) (1 / 10 ^ 7) (1 / 10 ^ 7) - 1 / 10 ^ 7 \<le> 2 / 10 ^ 7"
proof -
  define m :: real where "m = 1 / 10 ^ 7"
  define S where "S = sin m"
  define C where "C = cos m"
  define N where "N = newtonStep (1 / 2) m m"
  have m: "m = 1 / 10000000" by (simp add: m_def)
  have D: "0 < 1 - 1 / 2 * C" unfolding C_def by (rule denominator_pos) simp_all
  have C: "\<bar>C\<bar> \<le> 1" by (simp add: C_def)
  have "\<bar>S - m\<bar> \<le> \<bar>m\<bar> ^ 3 / 6" unfolding S_def by (rule sin_cubic_bound)
  then have S: "\<bar>S - 1 / 10000000\<bar> \<le> 1 / 1000000000000000000000"
    unfolding m by (simp add: power_divide)
  have "1 - 1 / 2 * cos m \<noteq> 0" using D by (simp add: C_def)
  then have "newtonStep (1 / 2) m m * (1 - 1 / 2 * cos m) = m + 1 / 2 * sin m - 1 / 2 * (m * cos m)"
    by (rule newtonStep_numerator)
  then have NT: "N * (1 - 1 / 2 * C) = m + 1 / 2 * S - 1 / 2 * (m * C)"
    by (simp add: N_def S_def C_def)
  have "(N - m) * (1 - 1 / 2 * C) = N * (1 - 1 / 2 * C) - m * (1 - 1 / 2 * C)"
    by (rule left_diff_distrib)
  also have "\<dots> = (m + 1 / 2 * S - 1 / 2 * (m * C)) - m * (1 - 1 / 2 * C)"
    by (simp only: NT)
  also have "\<dots> = 1 / 2 * S" by (simp add: algebra_simps)
  finally have T: "(N - m) * (1 - 1 / 2 * C) = 1 / 2 * S" .
  define Dn where "Dn = 1 - 1 / 2 * C"
  have Dn: "1 / 2 \<le> Dn" "Dn \<le> 3 / 2" using C unfolding Dn_def by linarith+
  have T': "(N - m) * Dn = 1 / 2 * S" using T by (simp only: Dn_def)
  have D': "0 < Dn" using Dn by linarith
  have lo: "(1 / 100000000) * Dn \<le> (N - m) * Dn"
    unfolding T' using S Dn by linarith
  have hi: "(N - m) * Dn \<le> (2 / 10000000) * Dn"
    unfolding T' using S Dn by linarith
  from quotient_between [OF D' lo hi]
  show "1 / 10 ^ 8 \<le> newtonStep (1 / 2) (1 / 10 ^ 7) (1 / 10 ^ 7) - 1 / 10 ^ 7"
    and "newtonStep (1 / 2) (1 / 10 ^ 7) (1 / 10 ^ 7) - 1 / 10 ^ 7 \<le> 2 / 10 ^ 7"
    by (simp_all add: N_def m_def)
qed

lemma convergent_second_step:
  "\<bar>newtonStep (1 / 2) (1 / 10 ^ 7) (newtonStep (1 / 2) (1 / 10 ^ 7) (1 / 10 ^ 7))
     - newtonStep (1 / 2) (1 / 10 ^ 7) (1 / 10 ^ 7)\<bar> \<le> 1 / 10 ^ 13"
proof -
  define m :: real where "m = 1 / 10 ^ 7"
  define E1 where "E1 = newtonStep (1 / 2) m m"
  define E2 where "E2 = newtonStep (1 / 2) m E1"
  define R where "R = E1 - 1 / 2 * sin E1 - m"
  define C where "C = cos E1"
  have h: "1 / 10 ^ 8 \<le> E1 - m" "E1 - m \<le> 2 / 10 ^ 7"
    using convergent_first_step by (simp_all add: E1_def m_def)
  then have h1: "\<bar>E1 - m\<bar> \<le> 1" by simp
  have "\<bar>E1 - m\<bar> \<le> \<bar>2 / 10 ^ 7 :: real\<bar>" using h by simp
  then have "(E1 - m)\<^sup>2 \<le> (2 / 10 ^ 7)\<^sup>2" by (simp only: abs_le_square_iff)
  moreover have "\<bar>E1 - 1 / 2 * sin E1 - m\<bar> \<le> (E1 - m)\<^sup>2"
    by (rule newton_residual_sq [OF _ _ E1_def h1]) simp_all
  ultimately have R: "\<bar>R\<bar> \<le> 4 / 100000000000000"
    by (simp add: R_def power_divide)
  have D: "0 < 1 - 1 / 2 * C" unfolding C_def by (rule denominator_pos) simp_all
  have C: "\<bar>C\<bar> \<le> 1" by (simp add: C_def)
  have "E2 - E1 = - (R / (1 - 1 / 2 * C))"
    by (simp add: E2_def newtonStep_def R_def C_def)
  then have T: "(E2 - E1) * (1 - 1 / 2 * C) = - R"
    using D by simp
  define Dn where "Dn = 1 - 1 / 2 * C"
  have Dn: "1 / 2 \<le> Dn" "Dn \<le> 3 / 2" using C unfolding Dn_def by linarith+
  have T': "(E2 - E1) * Dn = - R" using T by (simp only: Dn_def)
  have D': "0 < Dn" using Dn by linarith
  have lo: "(- (1 / 10000000000000)) * Dn \<le> (E2 - E1) * Dn"
    unfolding T' using R Dn by linarith
  have hi: "(E2 - E1) * Dn \<le> (1 / 10000000000000) * Dn"
    unfolding T' using R Dn by linarith
  from quotient_between [OF D' lo hi]
  have "\<bar>E2 - E1\<bar> \<le> 1 / 10000000000000" by linarith
  then show ?thesis by (simp add: E2_def E1_def m_def)
qed

lemma solveKepler_convergent:
  "solveKepler (1 / 2) (1 / 10 ^ 7)
     = Some (newtonStep (1 / 2) (1 / 10 ^ 7) (newtonStep (1 / 2) (1 / 10 ^ 7) (1 / 10 ^ 7)),
             newtonStep (1 / 2) (1 / 10 ^ 7) (1 / 10 ^ 7), 2)"
proof -
  define m :: real where "m = 1 / 10 ^ 7"
  define E1 where "E1 = newtonStep (1 / 2) m m"
  define E2 where "E2 = newtonStep (1 / 2) m E1"
  have den: "1 - 1 / 2 * cos E \<noteq> 0" for E :: real
    using denominator_pos [of "1 / 2" E] by simp
  have "1 / 10 ^ 8 \<le> E1 - m"
    using convergent_first_step(1) by (simp add: E1_def m_def)
  then have far: "\<bar>newtonStep (1 / 2) m m - m\<bar> > tolerance"
    by (simp add: E1_def [symmetric] tolerance_def)
  have "\<bar>E2 - E1\<bar> \<le> 1 / 10 ^ 13"
    using convergent_second_step by (simp add: E2_def E1_def m_def)
  then have near: "\<not> (\<bar>newtonStep (1 / 2) m E1 - E1\<bar> > tolerance \<and> 1 + 1 < (100::nat))"
    by (simp add: E2_def [symmetric] tolerance_def)
  have "keplerLoop (1 / 2) m m 0 = keplerLoop (1 / 2) m (newtonStep (1 / 2) m m) (0 + 1)"
    by (rule keplerLoop_continue [OF den far]) simp
  also have "\<dots> = Some (newtonStep (1 / 2) m E1, E1, 1 + 1)"
    unfolding E1_def [symmetric] using keplerLoop_stop [OF den near] by simp
  finally show ?thesis
    by (simp add: solveKepler_def E1_def m_def)
qed

lemma convergent_time:
  "timeFromEpoch convergentElements 315964800000 = 0"
  by (simp add: timeFromEpoch_def convergentElements_def UNIX_TO_GPS_EPOCH_SECONDS_def
      GPS_SECONDS_PER_WEEK_def js_rem_def js_trunc_def Let_def)

lemma convergent_anomaly:
  "meanAnomaly convergentElements 0 = Some (1 / 10 ^ 7)"
proof -
  define m :: real where "m = 1 / 10 ^ 7"
  have r: "0 \<le> m" "m < 2 * pi" using pi_ge_two by (simp_all add: m_def)
  have a: "js_rem m (2 * pi) = m" "js_rem (m + 2 * pi) (2 * pi) = m"
    by (rule js_rem_in_range [OF r])+
  have "js_rem (js_rem m (2 * pi) + 2 * pi) (2 * pi) = m"
    unfolding a ..
  then show ?thesis
    by (simp add: meanAnomaly_def convergentElements_def Let_def m_def)
qed

section \<open>Convergence of the solver\<close>

text \<open>
  C2 (the claim fails). The claim says that propagation fails with an error whenever the
  100 passes are used up without the tolerance being met. For the entry \<open>K01\<close> of
  \<open>cycleRinexData\<close> at the GPS epoch the solver ends with the count at 100 and its last
  two iterates 1/4 apart, and \<open>calculateSatellitePosition\<close> raises no error: it returns
  the position computed from the last iterate, here the one with NaN coordinates, the
  eccentricity being above 1.
\<close>

theorem kepler_cap_without_error:
  "meanAnomaly stableCycleElements (timeFromEpoch stableCycleElements 315964800000)
     = Some stableCycleMeanAnomaly
   \<and> solveKepler (ecc stableCycleElements) stableCycleMeanAnomaly
     = Some (stableCycleMeanAnomaly, - arctan (1/4), 100)
   \<and> \<bar>stableCycleMeanAnomaly - (- arctan (1/4))\<bar> > tolerance
   \<and> calculateSatellitePosition
        (Some \<lparr>rinexData = Some cycleRinexData, satelliteId = Some ''K01'',
               timestamp = Some 315964800000\<rparr>)
       = Inr (positionFromAnomaly stableCycleElements 0 stableCycleMeanAnomaly)
   \<and> positionFromAnomaly stableCycleElements 0 stableCycleMeanAnomaly = NaNPosition"
proof -
  have e: "ecc stableCycleElements = stableCycleEccentricity"
    by (simp add: stableCycleElements_def)
  have far: "\<bar>stableCycleMeanAnomaly - (- arctan (1/4))\<bar> > tolerance"
    by (simp add: stableCycleMeanAnomaly_def tolerance_def)
  have "1 * 1 < stableCycleEccentricity * stableCycleEccentricity"
    using stableCycleEccentricity_gt_one by (intro mult_strict_mono) simp_all
  then have "1 - (ecc stableCycleElements)\<^sup>2 < 0"
    by (simp add: e power2_eq_square)
  then have nan: "positionFromAnomaly stableCycleElements 0 stableCycleMeanAnomaly = NaNPosition"
    by (simp add: positionFromAnomaly_def)
  have "calculateSatellitePosition
        (Some \<lparr>rinexData = Some cycleRinexData, satelliteId = Some ''K01'',
               timestamp = Some 315964800000\<rparr>)
       = Inr (propagate stableCycleElements 315964800000)"
    by (simp add: calculateSatellitePosition_def findSatellite_cycle outsideValidity_def)
  then show ?thesis
    using far nan
    by (simp add: e stable_cycle_time stable_cycle_anomaly solveKepler_stable_cycle
        propagate_stable_cycle)
qed

text \<open>
  C2 (as amended). Where the mean anomaly and the iterates of the solver are finite
  numbers, the solver makes at least one and at most 100 passes and raises no error. If
  it ends before the 100th pass its last two iterates are within the tolerance. For a
  call that passes the parameter, lookup and validity tests, propagation returns the
  position computed from the last iterate, however the loop ended.
\<close>

theorem kepler_cap_returns_position:
  assumes "sid \<noteq> []"
    and "findSatellite rd sid = Some sd"
    and "orbitalParameters sd = Some orb"
    and "\<not> outsideValidity sd t"
    and "meanAnomaly orb (timeFromEpoch orb t) = Some normalizedMk"
    and "solveKepler (ecc orb) normalizedMk = Some (Ek, Ek_prev, iterations)"
  shows "1 \<le> iterations \<and> iterations \<le> 100
       \<and> (iterations < 100 \<longrightarrow> \<bar>Ek - Ek_prev\<bar> \<le> tolerance)
       \<and> calculateSatellitePosition
           (Some \<lparr>rinexData = Some rd, satelliteId = Some sid, timestamp = Some t\<rparr>)
           = Inr (positionFromAnomaly orb (timeFromEpoch orb t) Ek)"
proof -
  from assms(6) have loop: "keplerLoop (ecc orb) normalizedMk normalizedMk 0
      = Some (Ek, Ek_prev, iterations)"
    by (simp add: solveKepler_def)
  from keplerLoop_final [OF loop]
  have its: "1 \<le> iterations" "iterations \<le> 100"
    "iterations < 100 \<longrightarrow> \<bar>Ek - Ek_prev\<bar> \<le> tolerance"
    by auto
  have "propagate orb t = positionFromAnomaly orb (timeFromEpoch orb t) Ek"
    using assms(5,6) by (simp add: propagate_def Let_def)
  then have "calculateSatellitePosition
           (Some \<lparr>rinexData = Some rd, satelliteId = Some sid, timestamp = Some t\<rparr>)
           = Inr (positionFromAnomaly orb (timeFromEpoch orb t) Ek)"
    using assms(1-4) by (simp add: calculateSatellitePosition_checked)
  with its show ?thesis by simp
qed

theorem kepler_cap_returns_position_witness:
  "''K01'' \<noteq> []
   \<and> findSatellite cycleRinexData ''K01''
       = Some \<lparr>sat_id = ''K01'', orbitalParameters = Some stableCycleElements,
               timeParameters = None\<rparr>
   \<and> \<not> outsideValidity \<lparr>sat_id = ''K01'', orbitalParameters = Some stableCycleElements,
                          timeParameters = None\<rparr> 315964800000
   \<and> meanAnomaly stableCycleElements (timeFromEpoch stableCycleElements 315964800000)
       = Some stableCycleMeanAnomaly
   \<and> solveKepler (ecc stableCycleElements) stableCycleMeanAnomaly
       = Some (stableCycleMeanAnomaly, - arctan (1/4), 100)
   \<and> calculateSatellitePosition
        (Some \<lparr>rinexData = Some cycleRinexData, satelliteId = Some ''K01'',
               timestamp = Some 315964800000\<rparr>)
       = Inr (positionFromAnomaly stableCycleElements
                (timeFromEpoch stableCycleElements 315964800000) stableCycleMeanAnomaly)
   \<and> ''K02'' \<noteq> []
   \<and> findSatellite cycleRinexData ''K02''
       = Some \<lparr>sat_id = ''K02'', orbitalParameters = Some convergentElements,
               timeParameters = None\<rparr>
   \<and> \<not> outsideValidity \<lparr>sat_id = ''K02'', orbitalParameters = Some convergentElements,
                          timeParameters = None\<rparr> 315964800000
   \<and> meanAnomaly convergentElements (timeFromEpoch convergentElements 315964800000)
       = Some (1 / 10 ^ 7)
   \<and> solveKepler (ecc convergentElements) (1 / 10 ^ 7)
       = Some (newtonStep (1 / 2) (1 / 10 ^ 7) (newtonStep (1 / 2) (1 / 10 ^ 7) (1 / 10 ^ 7)),
               newtonStep (1 / 2) (1 / 10 ^ 7) (1 / 10 ^ 7), 2)
   \<and> \<bar>newtonStep (1 / 2) (1 / 10 ^ 7) (newtonStep (1 / 2) (1 / 10 ^ 7) (1 / 10 ^ 7))
        - newtonStep (1 / 2) (1 / 10 ^ 7) (1 / 10 ^ 7)\<bar> \<le> tolerance
   \<and> calculateSatellitePosition
        (Some \<lparr>rinexData = Some cycleRinexData, satelliteId = Some ''K02'',
               timestamp = Some 315964800000\<rparr>)
       = Inr (positionFromAnomaly convergentElements
                (timeFromEpoch convergentElements 315964800000)
                (newtonStep (1 / 2) (1 / 10 ^ 7) (newtonStep (1 / 2) (1 / 10 ^ 7) (1 / 10 ^ 7))))"
proof -
  have e1: "ecc stableCycleElements = stableCycleEccentricity"
    by (simp add: stableCycleElements_def)
  have e2: "ecc convergentElements = 1 / 2"
    by (simp add: convergentElements_def)
  have v: "\<not> outsideValidity \<lparr>sat_id = sid, orbitalParameters = orb, timeParameters = None\<rparr> t"
    for sid orb t
    by (simp add: outsideValidity_def)
  note k1 = kepler_cap_returns_position [of "''K01''" cycleRinexData
      "\<lparr>sat_id = ''K01'', orbitalParameters = Some stableCycleElements,
        timeParameters = None\<rparr>"
      stableCycleElements 315964800000 stableCycleMeanAnomaly
      stableCycleMeanAnomaly "- arctan (1/4)" 100]
  note k2 = kepler_cap_returns_position [of "''K02''" cycleRinexData
      "\<lparr>sat_id = ''K02'', orbitalParameters = Some convergentElements,
        timeParameters = None\<rparr>"
      convergentElements 315964800000 "1 / 10 ^ 7"
      "newtonStep (1 / 2) (1 / 10 ^ 7) (newtonStep (1 / 2) (1 / 10 ^ 7) (1 / 10 ^ 7))"
      "newtonStep (1 / 2) (1 / 10 ^ 7) (1 / 10 ^ 7)" 2]
  have a1: "calculateSatellitePosition
        (Some \<lparr>rinexData = Some cycleRinexData, satelliteId = Some ''K01'',
               timestamp = Some 315964800000\<rparr>)
       = Inr (positionFromAnomaly stableCycleElements
                (timeFromEpoch stableCycleElements 315964800000) stableCycleMeanAnomaly)"
    using k1 by (simp add: findSatellite_cycle v stable_cycle_time stable_cycle_anomaly e1
        solveKepler_stable_cycle)
  have a2: "\<bar>newtonStep (1 / 2) (1 / 10 ^ 7) (newtonStep (1 / 2) (1 / 10 ^ 7) (1 / 10 ^ 7))
        - newtonStep (1 / 2) (1 / 10 ^ 7) (1 / 10 ^ 7)\<bar> \<le> tolerance
     \<and> calculateSatellitePosition
        (Some \<lparr>rinexData = Some cycleRinexData, satelliteId = Some ''K02'',
               timestamp = Some 315964800000\<rparr>)
       = Inr (positionFromAnomaly convergentElements
                (timeFromEpoch convergentElements 315964800000)
                (newtonStep (1 / 2) (1 / 10 ^ 7) (newtonStep (1 / 2) (1 / 10 ^ 7) (1 / 10 ^ 7))))"
    using k2 solveKepler_convergent
    by (simp add: findSatellite_cycle v convergent_time convergent_anomaly e2)
  show ?thesis
    using a1 a2 solveKepler_convergent
    by (simp add: findSatellite_cycle v stable_cycle_time stable_cycle_anomaly e1 e2
        solveKepler_stable_cycle convergent_time convergent_anomaly)
qed

text \<open>
  C5 (the claim fails). The claim bounds the residual \<open>|E - e sin E - M|\<close> of the returned
  \<open>E\<close> by 1e-12 for every eccentricity in [0, 1) and every mean anomaly. For
  \<open>e = 0.97512\<close> and \<open>M = 0.191564\<close> the solver ends with the count at 100, its last two
  iterates further apart than the tolerance, and the residual of the returned \<open>E\<close> is at
  least 0.1.
\<close>

theorem kepler_residual_at_cap:
  "0 \<le> trappedEccentricity \<and> trappedEccentricity < 1
   \<and> (case solveKepler trappedEccentricity trappedMeanAnomaly of
        None \<Rightarrow> False
      | Some (Ek, Ek_prev, iterations) \<Rightarrow>
          iterations = 100 \<and> \<bar>Ek - Ek_prev\<bar> > tolerance
          \<and> 1 / 10 \<le> \<bar>Ek - trappedEccentricity * sin Ek - trappedMeanAnomaly\<bar>
          \<and> \<not> \<bar>Ek - trappedEccentricity * sin Ek - trappedMeanAnomaly\<bar> < 1 / 10 ^ 12)"
proof -
  obtain Ep where s: "solveKepler trappedEccentricity trappedMeanAnomaly
           = Some (newtonStep trappedEccentricity trappedMeanAnomaly Ep, Ep, 100)"
    and t: "trapped Ep"
    using solveKepler_trapped by blast
  define Ek where "Ek = newtonStep trappedEccentricity trappedMeanAnomaly Ep"
  have far: "\<bar>Ek - Ep\<bar> > tolerance" and tk: "trapped Ek"
    using trapped_step [OF t] by (simp_all add: Ek_def)
  have res: "1 / 10 \<le> \<bar>Ek - trappedEccentricity * sin Ek - trappedMeanAnomaly\<bar>"
    by (rule trapped_residual [OF tk])
  then have nres: "\<not> \<bar>Ek - trappedEccentricity * sin Ek - trappedMeanAnomaly\<bar> < 1 / 10 ^ 12"
    by simp
  have r: "0 \<le> trappedEccentricity" "trappedEccentricity < 1"
    by (simp_all add: trappedEccentricity_def)
  show ?thesis
    unfolding s using r far res nres unfolding Ek_def by simp
qed

text \<open>
  C5 (as amended). For an eccentricity in [0, 1) and any mean anomaly the solver returns
  finite iterates, and if it ends before the 100th pass, or ends with its last two
  iterates within the tolerance, then the returned \<open>E\<close> has \<open>|E - e sin E - M| < 1e-12\<close>.
\<close>

theorem kepler_residual_when_converged:
  assumes "0 \<le> e" and "e < 1"
  shows "\<exists>Ek Ek_prev iterations.
           solveKepler e M = Some (Ek, Ek_prev, iterations)
           \<and> (iterations < 100 \<or> \<bar>Ek - Ek_prev\<bar> \<le> tolerance
                \<longrightarrow> \<bar>Ek - e * sin Ek - M\<bar> < 1 / 10 ^ 12)"
proof -
  obtain Ek Ek_prev iterations where loop: "keplerLoop e M M 0 = Some (Ek, Ek_prev, iterations)"
    using keplerLoop_total [OF assms, of M M 0] by (metis prod_cases3)
  from keplerLoop_final [OF loop]
  have step: "Ek = newtonStep e M Ek_prev"
    and conv: "iterations < 100 \<longrightarrow> \<bar>Ek - Ek_prev\<bar> \<le> tolerance"
    by auto
  have "\<bar>Ek - e * sin Ek - M\<bar> < 1 / 10 ^ 12"
    if "iterations < 100 \<or> \<bar>Ek - Ek_prev\<bar> \<le> tolerance"
  proof -
    from conv that have "\<bar>Ek - Ek_prev\<bar> \<le> tolerance" by blast
    from newton_residual [OF assms step this] tolerance_sq
    show ?thesis by linarith
  qed
  with loop show ?thesis by (auto simp: solveKepler_def)
qed

theorem kepler_residual_when_converged_witness:
  "(0::real) \<le> 1 / 2 \<and> (1 / 2 :: real) < 1
   \<and> solveKepler (1 / 2) (1 / 10 ^ 7)
       = Some (newtonStep (1 / 2) (1 / 10 ^ 7) (newtonStep (1 / 2) (1 / 10 ^ 7) (1 / 10 ^ 7)),
               newtonStep (1 / 2) (1 / 10 ^ 7) (1 / 10 ^ 7), 2)
   \<and> tolerance < \<bar>newtonStep (1 / 2) (1 / 10 ^ 7) (1 / 10 ^ 7) - 1 / 10 ^ 7\<bar>
   \<and> (2::nat) < 100
   \<and> \<bar>newtonStep (1 / 2) (1 / 10 ^ 7) (newtonStep (1 / 2) (1 / 10 ^ 7) (1 / 10 ^ 7))
        - 1 / 2 * sin (newtonStep (1 / 2) (1 / 10 ^ 7)
                         (newtonStep (1 / 2) (1 / 10 ^ 7) (1 / 10 ^ 7)))
        - 1 / 10 ^ 7\<bar> < 1 / 10 ^ 12"
proof -
  have far: "tolerance < \<bar>newtonStep (1 / 2) (1 / 10 ^ 7) (1 / 10 ^ 7) - 1 / 10 ^ 7\<bar>"
    using convergent_first_step(1) by (simp add: tolerance_def)
  show ?thesis
    using kepler_residual_when_converged [of "1 / 2" "1 / 10 ^ 7"] solveKepler_convergent far
    by auto
qed

end
